theory Spec2Isabelle
  imports Main "HOL-Library.Multiset" "HOL-Library.List_Lexorder" "HOL-Library.Char_ord"
    "HOL-Library.AList"
begin

section \<open>Strings\<close>

text \<open>
  A Go string is a sequence of bytes; \<open>string\<close> (a list of \<open>char\<close>) is the same thing.
  \<open>splitOn c s\<close> is \<open>strings.Split(s, sep)\<close> for a separator \<open>sep\<close> of one byte \<open>c\<close>, the only
  kind the generator uses (\<open>"_"\<close> and \<open>"."\<close>): the pieces between the occurrences of the
  separator, empty pieces included, so that the empty string gives one empty piece.
  \<open>contains s substr\<close> is \<open>strings.Contains(s, substr)\<close>.
\<close>

fun splitOn :: "char \<Rightarrow> string \<Rightarrow> string list" where
  "splitOn c [] = [[]]"
| "splitOn c (x # xs) =
     (if x = c then [] # splitOn c xs
      else (case splitOn c xs of [] \<Rightarrow> [[x]] | y # ys \<Rightarrow> (x # y) # ys))"

fun contains :: "string \<Rightarrow> string \<Rightarrow> bool" where
  "contains [] substr = (substr = [])"
| "contains (c # cs) substr = (take (length substr) (c # cs) = substr \<or> contains cs substr)"

section \<open>getResourceShortCode\<close>

text \<open>
  The loop of \<open>getResourceShortCode\<close>: \<open>parts\<close> is \<open>len(resourceName)\<close> (the length of the
  name in bytes, not the number of pieces), \<open>i\<close> the index of the piece \<open>v\<close>, and the
  accumulator the short code built so far. The slice \<open>v[0:1]\<close> panics on an empty piece;
  the panic is the value \<open>None\<close>.
\<close>

fun shortCodeLoop :: "nat \<Rightarrow> nat \<Rightarrow> string list \<Rightarrow> string \<Rightarrow> string option" where
  "shortCodeLoop parts i [] acc = Some acc"
| "shortCodeLoop parts i (v # vs) acc =
     (if parts = 1 \<and> i = 0 then shortCodeLoop parts (Suc i) vs acc
      else (case v of
              [] \<Rightarrow> None
            | c # _ \<Rightarrow> shortCodeLoop parts (Suc i) vs (acc @ [c])))"

definition getResourceShortCode :: "string \<Rightarrow> string option" where
  "getResourceShortCode resourceName =
     shortCodeLoop (length resourceName) 0 (splitOn (CHR ''_'') resourceName) []"

section \<open>The schema of the plugin framework\<close>

text \<open>
  \<open>schema.Schema\<close> and \<open>schema.Resource\<close> belong to the Terraform plugin SDK. The model
  keeps the fields the generator reads. \<open>Elem\<close> is an \<open>interface{}\<close> in Go: a pointer to a
  \<open>Schema\<close>, a pointer to a \<open>Resource\<close> (whose field map is all the generator uses), or
  anything else. \<open>ValidateFunc\<close> is a function value; the generator looks only at the name
  the runtime reports for it and at the first result of calling it on \<open>(nil, "")\<close>, so
  the model holds that pair, and \<open>None\<close> for a nil function. \<open>valueTypeString\<close> is the
  SDK's \<open>ValueType.String()\<close>.
\<close>

datatype valueType =
  TypeInvalid | TypeBool | TypeInt | TypeFloat | TypeString | TypeList | TypeMap | TypeSet
  | typeObject

fun valueTypeString :: "valueType \<Rightarrow> string" where
  "valueTypeString TypeInvalid = ''TypeInvalid''"
| "valueTypeString TypeBool = ''TypeBool''"
| "valueTypeString TypeInt = ''TypeInt''"
| "valueTypeString TypeFloat = ''TypeFloat''"
| "valueTypeString TypeString = ''TypeString''"
| "valueTypeString TypeList = ''TypeList''"
| "valueTypeString TypeMap = ''TypeMap''"
| "valueTypeString TypeSet = ''TypeSet''"
| "valueTypeString typeObject = ''typeObject''"

datatype schema = Schema
  (sType: valueType) (sRequired: bool) (sOptional: bool) (sComputed: bool) (sForceNew: bool)
  (sMaxItems: int) (sMinItems: int) (sDescription: string) (sConflictsWith: "string list")
  (sValidateFunc: "(string \<times> string list) option") (sElem: elem)
and elem = ElemOther | ElemSchema schema | ElemResource "(string \<times> schema) list"

section \<open>The generator's data\<close>

text \<open>
  A Go map with string keys is an association list; \<open>m[k] = v\<close> is \<open>AList.update k v m\<close>
  and \<open>m[k]\<close> is \<open>map_of m k\<close>, with the zero value for a missing key. The struct
  \<open>attribute\<close> contains a map of attributes, so it is a datatype with the struct's field
  names as selectors; \<open>attribute0\<close> is the zero value \<open>attribute{}\<close>.
\<close>

datatype attribute = Attribute
  (Description: string) (IsBlock: bool) (MaxItems: int) (MinItems: int)
  (Required: bool) (Optional: bool) (Computed: bool) (ForceNew: bool)
  (PossibleValues: "string list") (PossibleOptions: "string list")
  (DataTypeString: string) (Attributes: "(string \<times> attribute) list")
  (Default: string) (ConflictsWith: "string list") (ResourcePath: string)

definition attribute0 :: attribute where
  "attribute0 = Attribute [] False 0 0 False False False False [] [] [] [] [] [] []"

definition setAttributes :: "attribute \<Rightarrow> (string \<times> attribute) list \<Rightarrow> attribute" where
  "setAttributes a as =
     Attribute (Description a) (IsBlock a) (MaxItems a) (MinItems a) (Required a) (Optional a)
       (Computed a) (ForceNew a) (PossibleValues a) (PossibleOptions a) (DataTypeString a) as
       (Default a) (ConflictsWith a) (ResourcePath a)"

definition appendPossibleValues :: "attribute \<Rightarrow> string list \<Rightarrow> attribute" where
  "appendPossibleValues a vs =
     Attribute (Description a) (IsBlock a) (MaxItems a) (MinItems a) (Required a) (Optional a)
       (Computed a) (ForceNew a) (PossibleValues a @ vs) (PossibleOptions a) (DataTypeString a)
       (Attributes a) (Default a) (ConflictsWith a) (ResourcePath a)"

record summaryAttribute =
  saPublished :: bool
  saIsBlock :: bool
  saRequired :: bool
  saOptional :: bool
  saComputed :: bool
  saDependentResourcePath :: string

definition summaryAttribute0 :: summaryAttribute where
  "summaryAttribute0 =
     \<lparr>saPublished = False, saIsBlock = False, saRequired = False, saOptional = False,
      saComputed = False, saDependentResourcePath = []\<rparr>"

record KeyValue =
  Key :: string
  Value :: string

text \<open>
  \<open>PaletteProp.CurrentValue\<close> is an \<open>interface{}\<close>; \<open>jvalue\<close> lists the values the generator
  stores there. \<open>JStringSlice None\<close> is the nil slice of \<open>var a []string\<close>. \<open>FlattenName\<close> is a
  pointer to the local variable \<open>flattenName\<close> of \<open>getPalletProp\<close>: what it points to when
  the function returns is the last value assigned to that variable, which is what the
  model stores. \<open>Validators\<close> is a map from names to values; \<open>Description\<close> and \<open>Filter\<close> are
  never assigned and stay nil.
\<close>

datatype jvalue =
  JNil | JString string | JBool bool | JInt int | JFloatZero | JStringSlice "string list option"
  | JStringMapNil

record PaletteProp =
  ppID :: string
  ppName :: string
  ppDescription :: "string option"
  ppType :: string
  ppCurrentValue :: jvalue
  ppFlattenName :: "string option"
  ppFilter :: "string option"
  ppDisabled :: bool
  ppReadOnly :: bool
  ppValidators :: "(string \<times> jvalue) list"
  ppOptions :: "KeyValue list"

definition PaletteProp0 :: PaletteProp where
  "PaletteProp0 =
     \<lparr>ppID = [], ppName = [], ppDescription = None, ppType = [], ppCurrentValue = JNil,
      ppFlattenName = None, ppFilter = None, ppDisabled = False, ppReadOnly = False,
      ppValidators = [], ppOptions = []\<rparr>"

record Creator =
  CreateFunction :: string
  Props :: "PaletteProp list"

record namingStruct =
  Delimiter :: string
  StaticName :: string
  IsDataSource :: bool
  Prefix :: string
  Fields :: "string list"

definition namingStruct0 :: namingStruct where
  "namingStruct0 =
     \<lparr>Delimiter = [], StaticName = [], IsDataSource = False, Prefix = [], Fields = []\<rparr>"

datatype Artefact =
  PublishedPropertiesSummary | TerraformTemplate | ModuleBlock | VariableBlock | LocalBlock
  | OutputBlock | PalletteBlock

text \<open>
  \<open>resource\<close> is the field map of the \<open>*schema.Resource\<close> the generator holds, \<open>None\<close> for
  the nil pointer.
\<close>

record documentationGenerator =
  resource :: "(string \<times> schema) list option"
  resourceName :: string
  isDataSource :: bool
  dltaPath :: string
  isResource :: bool
  isForced :: bool
  ShortCode :: string
  NamingConvention :: string

section \<open>The environment of a run\<close>

text \<open>
  The file system is a map from the path strings the program passes to the operating
  system to file contents; two strings that name the same file (through the working
  directory, or through a doubled separator) are different keys, and directories are not
  recorded. \<open>out\<close> holds the lines that \<open>writeResource\<close> and \<open>writeInitResourceProperties\<close>
  print; the trace lines of the block generators and of \<open>readResourceProperties\<close> go to
  the same standard output in the program, change no result and no file, and are left out.
\<close>

datatype fsError = ENOENT | EEXIST | EOTHER string

datatype fsOp = OpStat | OpRemove | OpMkdirAll | OpCreate | OpWrite | OpReadFile

record world =
  files :: "string \<rightharpoonup> string"
  out :: "string list"

text \<open>
  A registered service of the provider: the typed services list their data sources and
  resources with the name \<open>ResourceType()\<close> and the result of wrapping them (an error text
  or the resource's field map); the untyped services map names to resources.
\<close>

record typedService =
  DataSources :: "(string \<times> (string + (string \<times> schema) list)) list"
  Resources :: "(string \<times> (string + (string \<times> schema) list)) list"

record untypedService =
  SupportedDataSources :: "(string \<times> (string \<times> schema) list) list"
  SupportedResources :: "(string \<times> (string \<times> schema) list) list"

text \<open>
  Everything a run takes from outside the repository:
  \<^item> \<open>mapOrder site\<close> decides the order in which the \<open>range\<close> statement numbered \<open>site\<close>
    visits a map (Go leaves the order unspecified, and varies it between runs);
  \<^item> \<open>fault op k p\<close> is the error, if any, with which the operating system answers the
    \<open>k\<close>-th call of the operation \<open>op\<close> in the text of the calling function, on the path \<open>p\<close>,
    for reasons the file map does not show (permissions, a missing directory, a full disk);
  \<^item> \<open>uuidNew\<close> is the string of the UUID that \<open>uuid.New()\<close> draws;
  \<^item> \<open>filepathAbs\<close>, \<open>stringsTrimSpace\<close>, \<open>stringsTitle\<close> are the library functions of these
    names (\<open>None\<close> where \<open>filepath.Abs\<close> returns an error);
  \<^item> \<open>jsonMarshal...\<close> is \<open>json.MarshalIndent(v, "", "  ")\<close> at the three types \<open>writeJson\<close> is
    called with, and \<open>jsonUnmarshalSummary\<close> is what \<open>json.Unmarshal\<close> leaves in an empty map;
  \<^item> the services registered with the provider.
\<close>

record env =
  mapOrder :: "nat \<Rightarrow> nat list"
  fault :: "fsOp \<Rightarrow> nat \<Rightarrow> string \<Rightarrow> fsError option"
  uuidNew :: string
  filepathAbs :: "string \<Rightarrow> string option"
  stringsTrimSpace :: "string \<Rightarrow> string"
  stringsTitle :: "string \<Rightarrow> string"
  jsonMarshalString :: "string \<Rightarrow> string"
  jsonMarshalSummary :: "(string \<rightharpoonup> summaryAttribute) \<Rightarrow> string"
  jsonMarshalCreator :: "Creator \<Rightarrow> string"
  jsonUnmarshalSummary :: "string \<Rightarrow> (string \<rightharpoonup> summaryAttribute)"
  SupportedTypedServices :: "typedService list"
  SupportedUntypedServices :: "untypedService list"

subsection \<open>Ranging over a map\<close>

text \<open>
  \<open>shuffle ps xs\<close> picks the elements of \<open>xs\<close> one after the other, the next one at the
  index the next number of \<open>ps\<close> gives (modulo the number of elements left); when \<open>ps\<close> runs
  out the rest keeps its order. Every permutation of \<open>xs\<close> is \<open>shuffle ps xs\<close> for some \<open>ps\<close>.
  \<open>rangeMap e site m\<close> is the sequence of key and value pairs that
  \<open>for k, v := range m\<close> visits at the \<open>range\<close> statement \<open>site\<close>.
\<close>

fun shuffle :: "nat list \<Rightarrow> 'a list \<Rightarrow> 'a list" where
  "shuffle ps [] = []"
| "shuffle [] (x # xs) = x # xs"
| "shuffle (p # ps) (x # xs) =
     (let i = p mod Suc (length xs)
      in ((x # xs) ! i) # shuffle ps (take i (x # xs) @ drop (Suc i) (x # xs)))"

definition rangeMap :: "env \<Rightarrow> nat \<Rightarrow> (string \<times> 'a) list \<Rightarrow> (string \<times> 'a) list" where
  "rangeMap e site m = shuffle (mapOrder e site) m"

lemma mset_shuffle: "mset (shuffle ps xs) = mset xs"
proof (induction ps xs rule: shuffle.induct)
  case (3 p ps x xs)
  define i where "i = p mod Suc (length xs)"
  have i: "i < length (x # xs)" by (simp add: i_def)
  have "mset (x # xs) = mset (take i (x # xs) @ (x # xs) ! i # drop (Suc i) (x # xs))"
    using id_take_nth_drop [OF i] by simp
  then show ?case
    using 3 [OF i_def] by (simp add: i_def [symmetric] Let_def del: take_Suc_Cons drop_Suc_Cons nth_Cons_Suc)
qed simp_all

lemma set_shuffle: "set (shuffle ps xs) = set xs"
  using mset_shuffle [of ps xs] by (metis set_mset_mset)

lemma set_rangeMap: "set (rangeMap e site m) = set m"
  by (simp add: rangeMap_def set_shuffle)

lemma shuffle_Cons:
  "shuffle (p # ps) ys =
     (case ys of [] \<Rightarrow> []
      | _ # _ \<Rightarrow> (let i = p mod length ys in ys ! i # shuffle ps (take i ys
          @ drop (Suc i) ys)))"
  by (cases ys) simp_all

lemma shuffle_map: "shuffle ps (map f xs) = map f (shuffle ps xs)"
proof (induction ps xs rule: shuffle.induct)
  case (3 p ps x xs)
  define ys where "ys = x # xs"
  define i where "i = p mod Suc (length xs)"
  have i: "i < length ys" and i': "i = p mod length ys" by (simp_all add: i_def ys_def)
  have ne: "ys \<noteq> []" by (simp add: ys_def)
  have IH: "shuffle ps (map f (take i ys @ drop (Suc i) ys))
            = map f (shuffle ps (take i ys @ drop (Suc i) ys))"
    using 3 [OF i_def] by (simp only: ys_def)
  have "shuffle (p # ps) (map f ys)
        = map f ys ! i # shuffle ps (take i (map f ys) @ drop (Suc i) (map f ys))"
    using ne by (cases ys) (simp_all add: shuffle_Cons i' Let_def del: shuffle.simps)
  also have "\<dots> = f (ys ! i) # shuffle ps (map f (take i ys @ drop (Suc i) ys))"
    using i by (simp add: take_map drop_map)
  also have "\<dots> = map f (ys ! i # shuffle ps (take i ys @ drop (Suc i) ys))"
    using IH by simp
  also have "\<dots> = map f (shuffle (p # ps) ys)"
    using ne by (cases ys) (simp_all add: shuffle_Cons i' Let_def del: shuffle.simps)
  finally show ?case by (simp only: ys_def)
qed simp_all

lemma rangeMap_map: "rangeMap e site (map f m) = map f (rangeMap e site m)"
  by (simp add: rangeMap_def shuffle_map)

section \<open>Reflecting over the schema\<close>

definition getSchemaPossibleValues :: "schema \<Rightarrow> string list" where
  "getSchemaPossibleValues item =
     (case sValidateFunc item of
        None \<Rightarrow> []
      | Some (fnName, values) \<Rightarrow>
          if contains fnName ''StringInSlice'' \<or> contains fnName ''patchPossibleValuesFn''
          then values else [])"

definition isBlock :: "schema \<Rightarrow> bool" where
  "isBlock s = (case sElem s of ElemResource _ \<Rightarrow> True | _ \<Rightarrow> False)"

definition cloneSchemaToAttributes ::
  "attribute \<Rightarrow> schema \<Rightarrow> bool \<Rightarrow> string \<Rightarrow> string \<Rightarrow> attribute" where
  "cloneSchemaToAttributes a s isBlk parentPath fieldName =
     Attribute (sDescription s) isBlk (sMaxItems s) (sMinItems s)
       (sRequired s) (sOptional s) (sComputed s) (sForceNew s)
       (PossibleValues a) (PossibleOptions a)
       (valueTypeString (sType s)) (Attributes a)
       (Default a) (sConflictsWith s) (parentPath @ ''.'' @ fieldName)"

definition sortFields :: "env \<Rightarrow> (string \<times> schema) list \<Rightarrow> string list" where
  "sortFields e input = sort (map fst (rangeMap e 0 input))"

lemma map_of_size_schema:
  "map_of xs k = Some (v::schema) \<Longrightarrow> size v \<le> size_list (size_prod (\<lambda>x. 0) size) xs"
  by (induction xs) (auto split: if_splits)

lemma sElem_size:
  "sElem s = ElemResource sub \<Longrightarrow> size_list (size_prod (\<lambda>x. 0) size) sub < size s"
  by (cases s) auto

text \<open>
  \<open>getAllInputAttributes\<close>. The parameters \<open>parent\<close> and \<open>isChild\<close> of the source are never
  read and are left out. The three cases of \<open>Elem\<close> are the source's \<open>isBlock\<close> test (a
  resource), and inside the other branch the type assertion to \<open>*schema.Schema\<close>.
\<close>

function getAllInputAttributes ::
  "env \<Rightarrow> (string \<times> schema) list \<Rightarrow> string \<Rightarrow> (string \<times> attribute) list" where
  "getAllInputAttributes e input parentPath =
     foldl (\<lambda>retAttributes fieldName.
        case map_of input fieldName of
          None \<Rightarrow> retAttributes
        | Some s \<Rightarrow>
            if sRequired s \<or> sOptional s then
              AList.update fieldName
                (case sElem s of
                   ElemResource sub \<Rightarrow>
                     setAttributes (cloneSchemaToAttributes attribute0 s True parentPath fieldName)
                       (getAllInputAttributes e sub (parentPath @ ''.'' @ fieldName))
                 | ElemSchema b \<Rightarrow>
                     appendPossibleValues
                       (appendPossibleValues
                          (cloneSchemaToAttributes attribute0 s False parentPath fieldName)
                          (getSchemaPossibleValues s))
                       (getSchemaPossibleValues b)
                 | ElemOther \<Rightarrow>
                     appendPossibleValues
                       (cloneSchemaToAttributes attribute0 s False parentPath fieldName)
                       (getSchemaPossibleValues s))
                retAttributes
            else retAttributes)
       [] (sortFields e input)"
  by pat_completeness auto
termination
  apply (relation "measure (\<lambda>(e, input, parentPath). size_list (size_prod (\<lambda>x. 0) size) input)")
   apply simp
  apply (auto dest!: map_of_size_schema sElem_size)
  done

declare getAllInputAttributes.simps [simp del]

definition getAllOutputAttributes :: "(string \<times> attribute) list" where
  "getAllOutputAttributes =
     [(''id'', Attribute ''The resource id'' False 0 0 False False False False [] []
                ''TypeString'' [] [] [] []),
      (''name'', Attribute ''The resource name'' False 0 0 False False False False [] []
                ''TypeString'' [] [] [] [])]"

text \<open>
  \<open>summariseAttributes\<close>. The result map is written under the keys \<open>a.ResourcePath\<close>; for a
  block, every entry of the map that the recursive call returns is copied, keeping
  \<open>Published\<close> and \<open>IsBlock\<close> only (\<open>stripSummary\<close>). The keys of that map are distinct, so
  the copying loop is the override \<open>++\<close> whatever order it runs in.
\<close>

definition stripSummary :: "summaryAttribute \<Rightarrow> summaryAttribute" where
  "stripSummary v =
     \<lparr>saPublished = saPublished v, saIsBlock = saIsBlock v, saRequired = False,
      saOptional = False, saComputed = False, saDependentResourcePath = []\<rparr>"

definition summaryOf :: "bool \<Rightarrow> attribute \<Rightarrow> summaryAttribute" where
  "summaryOf published a =
     \<lparr>saPublished = published, saIsBlock = IsBlock a, saRequired = Required a,
      saOptional = Optional a, saComputed = Computed a, saDependentResourcePath = []\<rparr>"

lemma attribute_in_list_size:
  "(k, a) \<in> set xs
   \<Longrightarrow> size_list (size_prod (\<lambda>x. 0) size) (Attributes a)
       < size_list (size_prod (\<lambda>x. 0) size) (xs :: (string \<times> attribute) list)"
proof (induction xs)
  case (Cons x xs)
  then show ?case by (cases a) (auto simp: less_Suc_eq_le)
qed simp

function summariseAttributes ::
  "env \<Rightarrow> (string \<times> attribute) list \<Rightarrow> string \<Rightarrow> bool \<Rightarrow> (string \<rightharpoonup> summaryAttribute)"
where
  "summariseAttributes e a rn parentRequired =
     foldl (\<lambda>retAttributes (k, a).
        let published = (if parentRequired then (if Required a then True else False) else False);
            newrn = rn @ ''.'' @ k;
            ret1 = retAttributes(ResourcePath a \<mapsto> summaryOf published a)
        in if IsBlock a
           then ret1 ++ (map_option stripSummary \<circ> summariseAttributes e (Attributes a) newrn published)
           else ret1)
       Map.empty (rangeMap e 1 a)"
  by pat_completeness auto
termination
  apply (relation "measure (\<lambda>(e, a, rn, p). size_list (size_prod (\<lambda>x. 0) size) a)")
   apply simp
  apply (auto simp: set_rangeMap intro: attribute_in_list_size)
  done

declare summariseAttributes.simps [simp del]

section \<open>The file system\<close>

abbreviation TAB :: string where "TAB \<equiv> [CHR 0x09]"
abbreviation NL :: string where "NL \<equiv> [CHR 0x0A]"
abbreviation DQ :: string where "DQ \<equiv> [CHR 0x22]"
abbreviation SQ :: string where "SQ \<equiv> [CHR 0x27]"

text \<open>
  The operations of package \<open>os\<close> the generator calls. Each returns the error (\<open>None\<close> for
  \<open>err == nil\<close>) and, where it changes the file system, the new world. \<open>os.Stat\<close> fails on a
  path that is not there; \<open>os.Create\<close> leaves an empty file; a write through the handle of a
  file just created leaves the written string as its contents. A file that could not be
  created gives a nil handle, on which \<open>WriteString\<close>, \<open>Sync\<close> and \<open>Close\<close> return an error and
  do nothing. \<open>pathErrorText\<close> is the text of the \<open>*PathError\<close> these calls return.
\<close>

fun errnoText :: "fsError \<Rightarrow> string" where
  "errnoText ENOENT = ''no such file or directory''"
| "errnoText EEXIST = ''file exists''"
| "errnoText (EOTHER t) = t"

definition pathErrorText :: "string \<Rightarrow> string \<Rightarrow> fsError \<Rightarrow> string" where
  "pathErrorText operation path err = operation @ '' '' @ path @ '': '' @ errnoText err"

definition osStat :: "env \<Rightarrow> nat \<Rightarrow> string \<Rightarrow> world \<Rightarrow> fsError option" where
  "osStat e k path w =
     (case fault e OpStat k path of
        Some err \<Rightarrow> Some err
      | None \<Rightarrow> (case files w path of None \<Rightarrow> Some ENOENT | Some _ \<Rightarrow> None))"

definition osRemove :: "env \<Rightarrow> nat \<Rightarrow> string \<Rightarrow> world \<Rightarrow> world" where
  "osRemove e k path w =
     (case fault e OpRemove k path of
        Some err \<Rightarrow> w
      | None \<Rightarrow> w\<lparr>files := (files w)(path := None)\<rparr>)"

definition osMkdirAll :: "env \<Rightarrow> nat \<Rightarrow> string \<Rightarrow> fsError option" where
  "osMkdirAll e k path = fault e OpMkdirAll k path"

definition osCreate :: "env \<Rightarrow> nat \<Rightarrow> string \<Rightarrow> world \<Rightarrow> fsError option \<times> world" where
  "osCreate e k path w =
     (case fault e OpCreate k path of
        Some err \<Rightarrow> (Some err, w)
      | None \<Rightarrow> (None, w\<lparr>files := (files w)(path \<mapsto> [])\<rparr>))"

definition fileWriteString :: "env \<Rightarrow> string \<Rightarrow> string \<Rightarrow> world \<Rightarrow> world" where
  "fileWriteString e path s w =
     (case fault e OpWrite 0 path of
        Some err \<Rightarrow> w
      | None \<Rightarrow> w\<lparr>files := (files w)(path \<mapsto> s)\<rparr>)"

definition osReadFile :: "env \<Rightarrow> nat \<Rightarrow> string \<Rightarrow> world \<Rightarrow> string option" where
  "osReadFile e k path w =
     (case fault e OpReadFile k path of
        Some err \<Rightarrow> None
      | None \<Rightarrow> files w path)"

definition osIsExist :: "fsError option \<Rightarrow> bool" where
  "osIsExist err = (err = Some EEXIST)"

definition printf :: "string \<Rightarrow> world \<Rightarrow> world" where
  "printf line w = w\<lparr>out := out w @ [line]\<rparr>"

definition specialName :: "string \<Rightarrow> bool" where
  "specialName n = (\<not> (n \<noteq> ''terraform_azurerm'' \<and> n \<noteq> ''devops_pipeline''))"

definition resourceKindOf :: "documentationGenerator \<Rightarrow> string" where
  "resourceKindOf gen = (if \<not> isResource gen then ''d'' else ''r'')"

subsection \<open>writeResource\<close>

definition artefactFile :: "Artefact \<Rightarrow> string \<times> string" where
  "artefactFile a =
     (if a = TerraformTemplate then (''template.json'', ''resource'')
      else if a = ModuleBlock then (''main.tf'', ''module'')
      else if a = VariableBlock then (''variables.tf'', ''module'')
      else if a = PalletteBlock then (''pallette.sql'', ''resource'')
      else if a = OutputBlock then (''output.tf'', ''module'')
      else if a = LocalBlock then (''local.tf'', ''module'')
      else ([], []))"

definition writeResourceDirectory :: "documentationGenerator \<Rightarrow> Artefact \<Rightarrow> string" where
  "writeResourceDirectory gen a =
     (let resourceKind = resourceKindOf gen; dirName = resourceName gen;
          subDir = snd (artefactFile a)
      in (''/'' @ (dltaPath gen) @ ''/'' @ resourceKind @ ''/'' @ dirName @ ''/'' @ subDir
          @ ''/''))"

definition writeResourcePath :: "documentationGenerator \<Rightarrow> Artefact \<Rightarrow> string" where
  "writeResourcePath gen a =
     (let resourceKind = resourceKindOf gen; dirName = resourceName gen;
          fileName = fst (artefactFile a); subDir = snd (artefactFile a)
      in (''/'' @ (dltaPath gen) @ ''/'' @ resourceKind @ ''/'' @ dirName @ ''/'' @ subDir
          @ ''/'' @ fileName))"

text \<open>
  Both writing functions share their file handling, statement for statement, up to the
  function name at the start of the messages (\<open>who\<close>): \<open>clearPrevious\<close> is the removal of
  the previous file under \<open>-force\<close>, and \<open>createAndWrite\<close> is the branch taken when
  \<open>os.Stat\<close> does not find the file. There, \<open>created\<close> is the result of the first
  \<open>os.Create\<close> and \<open>retried\<close> the error and world after the \<open>os.IsExist\<close> test; the string
  is written when the handle is not nil.
\<close>

definition clearPrevious :: "env \<Rightarrow> bool \<Rightarrow> string \<Rightarrow> world \<Rightarrow> world" where
  "clearPrevious e forced outputPath w =
     (if forced \<and> osStat e 0 outputPath w = None then osRemove e 0 outputPath w else w)"

definition createAndWrite ::
  "env \<Rightarrow> string \<Rightarrow> string \<Rightarrow> string \<Rightarrow> string \<Rightarrow> world \<Rightarrow> world" where
  "createAndWrite e who outputDirectoryPath outputPath s w1 =
     (let w2 = (case osMkdirAll e 0 outputDirectoryPath of
                  None \<Rightarrow> w1
                | Some err \<Rightarrow>
                    printf (who @ '' '' @ DQ @ ''4.1 directory error'' @ DQ @ '': ''
                        @ (pathErrorText ''mkdir'' outputDirectoryPath err) @ NL) w1);
          created = osCreate e 0 outputPath w2;
          w3 = (case fst created of
                  None \<Rightarrow> snd created
                | Some err \<Rightarrow>
                    printf (who @ '' '' @ DQ @ ''4. file error'' @ DQ @ '': ''
                        @ (pathErrorText ''open'' outputPath err) @ NL) (snd created));
          retried =
            (if osIsExist (fst created)
             then (let again = osCreate e 1 outputPath (osRemove e 1 outputPath w3)
                   in (case fst again of
                         None \<Rightarrow> again
                       | Some err \<Rightarrow>
                           (fst again,
                            printf (who @ '' '' @ DQ @ ''5. file error'' @ DQ @ '': ''
                                @ (pathErrorText ''open'' outputPath err) @ NL)
                              (snd again))))
             else (fst created, w3))
      in if fst retried = None then fileWriteString e outputPath s (snd retried)
         else snd retried)"

definition writeResource ::
  "env \<Rightarrow> documentationGenerator \<Rightarrow> string \<Rightarrow> Artefact \<Rightarrow> world \<Rightarrow> string \<times> world" where
  "writeResource e gen s a w =
     (let outputDirectoryPath = writeResourceDirectory gen a;
          outputPath = writeResourcePath gen a;
          w1 = clearPrevious e (isForced gen) outputPath w
      in if osStat e 1 outputPath w1 = None
         then ([], printf (''writeResource '' @ DQ @ ''3. File exists error'' @ DQ
             @ ''  on path: '' @ outputPath @ NL) w1)
         else ([], createAndWrite e ''writeResource'' outputDirectoryPath outputPath s w1))"

subsection \<open>The property summary of \<open>init\<close>\<close>

definition initDirectory :: "documentationGenerator \<Rightarrow> string" where
  "initDirectory gen =
     (let resourceKind = resourceKindOf gen; dirName = resourceName gen; subDir = ''resource''
      in (''/'' @ (dltaPath gen) @ ''/'' @ resourceKind @ ''/'' @ dirName @ ''/'' @ subDir
          @ ''/''))"

definition initPath :: "documentationGenerator \<Rightarrow> string" where
  "initPath gen =
     (let resourceKind = resourceKindOf gen; fileName = resourceName gen;
          dirName = resourceName gen; subDir = ''resource''
      in ((dltaPath gen) @ ''/'' @ resourceKind @ ''/'' @ dirName @ ''/'' @ subDir @ ''/''
          @ fileName @ ''.json''))"

definition initSummary ::
  "env \<Rightarrow> documentationGenerator \<Rightarrow> (string \<times> schema) list \<Rightarrow> (string \<rightharpoonup> summaryAttribute)" where
  "initSummary e gen sch =
     summariseAttributes e (getAllInputAttributes e sch (resourceName gen))
       (resourceName gen) True"

text \<open>
  A function that can panic returns \<open>Panicked w\<close>, with the world \<open>w\<close> in which the panic
  happens, or \<open>Returned v w\<close>. \<open>writeInitResourceProperties\<close> reads \<open>gen.resource.Schema\<close>:
  with a nil resource that is a nil pointer dereference.
\<close>

datatype 'a result = Panicked world | Returned 'a world

definition writeInitResourceProperties ::
  "env \<Rightarrow> documentationGenerator \<Rightarrow> world \<Rightarrow> string result" where
  "writeInitResourceProperties e gen w =
     (if resourceName gen \<noteq> ''terraform_azurerm'' \<and> resourceName gen \<noteq> ''devops_pipeline'' then
        (case resource gen of
           None \<Rightarrow> Panicked w
         | Some sch \<Rightarrow>
             (let flatted = initSummary e gen sch;
                  content = jsonMarshalSummary e flatted;
                  outputDirectoryPath = initDirectory gen;
                  outputPath = initPath gen;
                  w1 = clearPrevious e (isForced gen) outputPath w
              in if osStat e 1 outputPath w1 = None
                 then Returned [] (printf (''initResourceProperties '' @ DQ
                     @ ''3. File exists error'' @ DQ @ '': '' @ outputPath @ NL) w1)
                 else Returned []
                        (createAndWrite e ''initResourceProperties'' outputDirectoryPath
                           outputPath (stringsTrimSpace e content) w1)))
      else Returned [] w)"

subsection \<open>Reading the summary back\<close>

definition readPath :: "documentationGenerator \<Rightarrow> string" where
  "readPath gen =
     (let resourceKind = resourceKindOf gen; fileName = resourceName gen;
          dirName = resourceName gen; subDir = ''resource''
      in ((dltaPath gen) @ ''/'' @ resourceKind @ ''/'' @ dirName @ ''/'' @ subDir @ ''/''
          @ fileName @ ''.json''))"

definition readResourceProperties ::
  "env \<Rightarrow> documentationGenerator \<Rightarrow> world \<Rightarrow> (string \<rightharpoonup> summaryAttribute)" where
  "readResourceProperties e gen w =
     (if resourceName gen \<noteq> ''terraform_azurerm'' \<and> resourceName gen \<noteq> ''devops_pipeline'' then
        (case filepathAbs e (readPath gen) of
           None \<Rightarrow> Map.empty
         | Some outputPath \<Rightarrow>
             if osStat e 0 outputPath w \<noteq> None then Map.empty
             else (case osReadFile e 0 outputPath w of
                     None \<Rightarrow> Map.empty
                   | Some fileContent \<Rightarrow> jsonUnmarshalSummary e fileContent))
      else Map.empty)"

definition lookupSummary :: "(string \<rightharpoonup> summaryAttribute) \<Rightarrow> string \<Rightarrow> summaryAttribute" where
  "lookupSummary sa path = (case sa path of None \<Rightarrow> summaryAttribute0 | Some v \<Rightarrow> v)"

function getAllPublishedAttributes ::
  "env \<Rightarrow> (string \<times> attribute) list \<Rightarrow> (string \<rightharpoonup> summaryAttribute)
   \<Rightarrow> (string \<times> attribute) list" where
  "getAllPublishedAttributes e allAttr sa =
     foldl (\<lambda>retAttributes (k, a).
        if \<not> saPublished (lookupSummary sa (ResourcePath a)) then retAttributes
        else AList.update k
               (if IsBlock a
                then setAttributes a
                       (foldl (\<lambda>tempAttributes (k2, a2).
                           if saPublished (lookupSummary sa (ResourcePath a2))
                           then AList.update k2 a2 tempAttributes else tempAttributes)
                          [] (rangeMap e 4 (getAllPublishedAttributes e (Attributes a) sa)))
                else a)
               retAttributes)
       [] (rangeMap e 3 allAttr)"
  by pat_completeness auto
termination
  apply (relation "measure (\<lambda>(e, a, sa). size_list (size_prod (\<lambda>x. 0) size) a)")
   apply simp
  apply (auto simp: set_rangeMap intro: attribute_in_list_size)
  done

declare getAllPublishedAttributes.simps [simp del]

definition getPublishedAttributes ::
  "env \<Rightarrow> documentationGenerator \<Rightarrow> world \<Rightarrow> (string \<times> attribute) list" where
  "getPublishedAttributes e gen w =
     (case resource gen of
        None \<Rightarrow> []
      | Some sch \<Rightarrow>
          (let inputAttributes = getAllInputAttributes e sch (resourceName gen);
               sa = readResourceProperties e gen w
           in getAllPublishedAttributes e inputAttributes sa))"

section \<open>The attributes a block is generated from\<close>

definition injected :: "string \<Rightarrow> attribute" where
  "injected description =
     Attribute description False 0 0 False False False False [] [] ''TypeString'' [] [] [] []"

definition terraform_azurerm_azurerm_source :: attribute where
  "terraform_azurerm_azurerm_source = injected ''String representing the source''"
definition terraform_azurerm_azurerm_version :: attribute where
  "terraform_azurerm_azurerm_version = injected ''String representing the source''"
definition terraform_azurerm_azapi_source :: attribute where
  "terraform_azurerm_azapi_source = injected ''String representing the source''"
definition terraform_azurerm_azapi_version :: attribute where
  "terraform_azurerm_azapi_version = injected ''String representing the version''"
definition dlta_terraform_template :: attribute where
  "dlta_terraform_template = injected ''Terraform template to provision this asset''"
definition dlta_naming_convention :: attribute where
  "dlta_naming_convention =
     injected ''String that defines the naming convention for this asset type''"
definition dlta_environment_char :: attribute where
  "dlta_environment_char = injected ''Single character variable''"
definition dlta_application_short_code :: attribute where
  "dlta_application_short_code = injected ''Short code representing the application''"
definition dlta_business_short_code :: attribute where
  "dlta_business_short_code = injected ''Short code representing the business''"
definition dlta_instance_id :: attribute where
  "dlta_instance_id = injected ''3 digit string representing the instance''"
definition dlta_location_short_code :: attribute where
  "dlta_location_short_code = injected ''3 digit string representing the region''"
definition dlta_vendor_asset_short_code :: attribute where
  "dlta_vendor_asset_short_code = injected ''short string representing the asset type''"
definition dlta_terraform_module_name :: attribute where
  "dlta_terraform_module_name =
     injected ''Terraform Module Name e.g. azurerm_service_plan_1234''"
definition dlta_terraform_data_source_name :: attribute where
  "dlta_terraform_data_source_name =
     injected ''Terraform Data Source Name e.g. ds-kvap-sec-demo-d-eun-001''"
definition dlta_terraform_is_data_source :: attribute where
  "dlta_terraform_is_data_source = injected ''Terraform Data Source Tyoe e.g. resource|data''"

definition keyValues :: "string list \<Rightarrow> KeyValue list" where
  "keyValues vs = map (\<lambda>v. \<lparr>Key = v, Value = v\<rparr>) vs"

definition dlta_location_options :: "KeyValue list" where
  "dlta_location_options = keyValues [''northeurope'', ''westeurope'']"
definition dlta_environment_char_options :: "KeyValue list" where
  "dlta_environment_char_options = keyValues [''d'', ''u'', ''s'', ''p'']"
definition dlta_application_short_code_options :: "KeyValue list" where
  "dlta_application_short_code_options =
     keyValues [''demo'', ''bigd'', ''ecom'', ''erp'', ''aldft'']"
definition dlta_business_short_code_options :: "KeyValue list" where
  "dlta_business_short_code_options = keyValues [''sec'', ''idt'', ''mgt'', ''finc'', ''gdmz'']"
definition dlta_instance_id_options :: "KeyValue list" where
  "dlta_instance_id_options = keyValues [''001'', ''002'', ''003'']"
definition dlta_location_short_code_options :: "KeyValue list" where
  "dlta_location_short_code_options = keyValues [''eun'', ''euw'']"
definition terraform_azurerm_azurerm_source_options :: "KeyValue list" where
  "terraform_azurerm_azurerm_source_options = keyValues [''hashicorp/azurerm'']"
definition terraform_azurerm_azurerm_version_options :: "KeyValue list" where
  "terraform_azurerm_azurerm_version_options = keyValues [''3.59.0'']"
definition terraform_azurerm_azapi_source_options :: "KeyValue list" where
  "terraform_azurerm_azapi_source_options = keyValues [''azure/azapi'']"
definition terraform_azurerm_azapi_version_options :: "KeyValue list" where
  "terraform_azurerm_azapi_version_options = keyValues [''1.6.0'']"

definition getInjectAttributes :: "documentationGenerator \<Rightarrow> (string \<times> attribute) list" where
  "getInjectAttributes gen =
     (if resourceName gen = ''terraform_azurerm'' then
        [(''terraform_azurerm_azurerm_source'', terraform_azurerm_azurerm_source),
         (''terraform_azurerm_azurerm_version'', terraform_azurerm_azurerm_version),
         (''terraform_azurerm_azapi_source'', terraform_azurerm_azapi_source),
         (''terraform_azurerm_azapi_version'', terraform_azurerm_azapi_version),
         (''dlta_terraform_template'', dlta_terraform_template),
         (''dlta_naming_convention'', dlta_naming_convention)]
      else if resourceName gen = ''devops_pipeline'' then []
      else if isDataSource gen then
        [(''dlta_environment_char'', dlta_environment_char),
         (''dlta_application_short_code'', dlta_application_short_code),
         (''dlta_business_short_code'', dlta_business_short_code),
         (''dlta_instance_id'', dlta_instance_id),
         (''dlta_location_short_code'', dlta_location_short_code),
         (''dlta_vendor_asset_short_code'', dlta_vendor_asset_short_code),
         (''dlta_terraform_template'', dlta_terraform_template),
         (''dlta_naming_convention'', dlta_naming_convention),
         (''dlta_terraform_module_name'', dlta_terraform_module_name),
         (''dlta_terraform_data_source_name'', dlta_terraform_data_source_name),
         (''dlta_terraform_is_data_source'', dlta_terraform_is_data_source)]
      else
        [(''dlta_environment_char'', dlta_environment_char),
         (''dlta_application_short_code'', dlta_application_short_code),
         (''dlta_business_short_code'', dlta_business_short_code),
         (''dlta_instance_id'', dlta_instance_id),
         (''dlta_location_short_code'', dlta_location_short_code),
         (''dlta_vendor_asset_short_code'', dlta_vendor_asset_short_code),
         (''dlta_terraform_template'', dlta_terraform_template),
         (''dlta_naming_convention'', dlta_naming_convention),
         (''dlta_terraform_module_name'', dlta_terraform_module_name),
         (''dlta_terraform_is_data_source'', dlta_terraform_is_data_source)])"

definition injectAttributes ::
  "env \<Rightarrow> documentationGenerator \<Rightarrow> world \<Rightarrow> (string \<times> attribute) list" where
  "injectAttributes e gen w =
     (let injectAttributes = getInjectAttributes gen;
          publishedAttributes = getPublishedAttributes e gen w;
          allAttributes =
            foldl (\<lambda>allAttributes (k, a). AList.update k a allAttributes) []
              (rangeMap e 5 injectAttributes)
      in foldl (\<lambda>allAttributes (k, a). AList.update k a allAttributes) allAttributes
           (rangeMap e 6 publishedAttributes))"

definition lookupAttribute :: "(string \<times> attribute) list \<Rightarrow> string \<Rightarrow> attribute" where
  "lookupAttribute m k = (case map_of m k of None \<Rightarrow> attribute0 | Some a \<Rightarrow> a)"

section \<open>Names\<close>

text \<open>
  The loops that join the pieces of a resource path with underscores: piece \<open>i\<close> of \<open>n\<close> is
  followed by an underscore when \<open>i < n - 1\<close>, and the pieces before index \<open>skip\<close> are passed
  over (\<open>genVariableNameFromResourcePath\<close> passes over none, the loops inside the block
  generators over the first).
\<close>

fun joinFrom :: "nat \<Rightarrow> nat \<Rightarrow> nat \<Rightarrow> string list \<Rightarrow> string" where
  "joinFrom skip n i [] = []"
| "joinFrom skip n i (v # vs) =
     (if i < skip then joinFrom skip n (Suc i) vs
      else v @ (if int i < int n - 1 then ''_'' else []) @ joinFrom skip n (Suc i) vs)"

definition genVariableNameFromResourcePath :: "string \<Rightarrow> string" where
  "genVariableNameFromResourcePath rp =
     joinFrom 0 (length (splitOn (CHR ''.'') rp)) 0 (splitOn (CHR ''.'') rp)"

definition pathWithoutResource :: "string \<Rightarrow> string" where
  "pathWithoutResource rp =
     joinFrom 1 (length (splitOn (CHR ''.'') rp)) 0 (splitOn (CHR ''.'') rp)"

definition translateDataType :: "string \<Rightarrow> string" where
  "translateDataType terraType =
     (if terraType = ''TypeString'' then ''string''
      else if terraType = ''TypeBool'' then ''bool''
      else if terraType = ''TypeInt'' then ''number''
      else if terraType = ''TypeFloat'' then ''number''
      else if terraType = ''TypeList'' then ''list''
      else if terraType = ''TypeMap'' then ''map''
      else ''property undefiend'')"

definition initiaiseAttribute :: "env \<Rightarrow> string \<Rightarrow> jvalue" where
  "initiaiseAttribute e terraType =
     (if terraType = ''TypeString'' then JString (jsonMarshalString e [])
      else if terraType = ''TypeBool'' then JBool False
      else if terraType = ''TypeInt'' then JInt 0
      else if terraType = ''TypeFloat'' then JFloatZero
      else if terraType = ''TypeList'' then JStringSlice (Some [[]])
      else if terraType = ''TypeMap'' then JStringMapNil
      else JNil)"

fun labelLoop :: "env \<Rightarrow> nat \<Rightarrow> nat \<Rightarrow> string list \<Rightarrow> string" where
  "labelLoop e n i [] = []"
| "labelLoop e n i (v # vs) =
     (if v = ''dlta'' then labelLoop e n (Suc i) vs
      else stringsTitle e v @ (if int i < int n - 1 then '' '' else [])
           @ labelLoop e n (Suc i) vs)"

definition convertNameToLabel :: "env \<Rightarrow> string \<Rightarrow> string" where
  "convertNameToLabel e name =
     labelLoop e (length (splitOn (CHR ''_'') name)) 0 (splitOn (CHR ''_'') name)"

section \<open>The block generators\<close>

text \<open>
  Every generator builds its string by appending inside loops over maps of attributes:
  the body of a loop is a function from a key and an attribute to the text that one
  round appends, and the loop is the concatenation of these texts in the order
  \<open>rangeMap\<close> gives. The function \<open>...From\<close> is the generator after its first statement
  \<open>attributes := gen.injectAttributes()\<close>.
\<close>

subsection \<open>terraformTemplateBlock\<close>

definition templateLevel3 :: "string \<times> attribute \<Rightarrow> string" where
  "templateLevel3 = (\<lambda>(n2, at2).
     if n2 = ''name'' \<and> ResourcePath at2 \<noteq> (''azurerm_subnet.delegation.service_delegation.name'') then []
     else if n2 = ''name'' then
       (let vn = genVariableNameFromResourcePath (ResourcePath at2) in (TAB @ vn @ TAB @ TAB
           @ ''= ${'' @ vn @ ''}'' @ NL))
     else if DataTypeString at2 = valueTypeString TypeList then (TAB @ n2 @ TAB @ TAB
         @ ''= ${'' @ n2 @ ''}'' @ NL)
     else (TAB @ n2 @ TAB @ TAB @ ''= '' @ DQ @ ''${'' @ n2 @ ''}'' @ DQ @ NL))"

definition templateLevel2 :: "env \<Rightarrow> documentationGenerator \<Rightarrow> string \<times> attribute \<Rightarrow> string" where
  "templateLevel2 e gen = (\<lambda>(n1, at1).
     if \<not> IsBlock at1 then
       (if n1 = ''name'' then []
        else if n1 = ''private_connection_resource_id'' then
          (if isDataSource gen then (TAB @ ''private_connection_resource_id'' @ TAB @ TAB
              @ ''= '' @ DQ @ ''${DataResourceGroup}'' @ DQ @ NL) else (TAB
              @ ''private_connection_resource_id'' @ TAB @ TAB
              @ ''= module.${private_connection_resource_id}.id'' @ NL))
        else if n1 = (''is_manual_connection'' @ TAB @ TAB) then
          (if isDataSource gen then (TAB @ ''is_manual_connection'' @ TAB @ TAB @ TAB @ TAB
              @ ''= '' @ DQ @ ''${DataResourceGroup}'' @ DQ @ NL) else (TAB
              @ ''is_manual_connection'' @ TAB @ TAB @ TAB @ TAB
              @ ''= ${is_manual_connection'' @ TAB @ TAB @ ''}'' @ NL))
        else if DataTypeString at1 = valueTypeString TypeList then (TAB @ n1 @ TAB @ TAB
            @ ''= ${'' @ n1 @ ''}'' @ NL)
        else (TAB @ n1 @ TAB @ TAB @ ''= '' @ DQ @ ''${'' @ n1 @ ''}'' @ DQ @ NL))
     else concat (map templateLevel3 (rangeMap e 9 (Attributes at1))))"

definition templateLevel1 :: "env \<Rightarrow> documentationGenerator \<Rightarrow> string \<times> attribute \<Rightarrow> string" where
  "templateLevel1 e gen = (\<lambda>(n, at).
     if n = ''location'' \<or> contains n ''dlta'' \<or> n = ''name'' then []
     else if \<not> Computed at then
       (if \<not> IsBlock at then
          (if n = ''resource_group_name'' then
             (if isDataSource gen then (TAB @ ''resource_group_name'' @ TAB @ TAB @ ''= ''
                 @ DQ @ ''${DataResourceGroup}'' @ DQ @ NL) else (TAB
                 @ ''resource_group_name'' @ TAB @ TAB @ ''= module.${ResourceGroup}.name''
                 @ NL))
           else if n = ''virtual_network_name'' then
             (if isDataSource gen then (TAB @ ''virtual_network_name'' @ TAB @ TAB @ ''= ''
                 @ DQ @ ''${DataResourceGroup}'' @ DQ @ NL) else (TAB
                 @ ''virtual_network_name'' @ TAB @ TAB
                 @ ''= module.${virtual_network_name}.name'' @ NL))
           else if n = ''private_connection_resource_id'' then
             (if isDataSource gen then (TAB @ ''private_connection_resource_id'' @ TAB @ TAB
                 @ ''= '' @ DQ @ ''${DataResourceGroup}'' @ DQ @ NL) else (TAB
                 @ ''private_connection_resource_id'' @ TAB @ TAB
                 @ ''= module.${private_connection_resource_id}.id'' @ NL))
           else if n = ''subnet_id'' then
             (if isDataSource gen then (TAB @ ''subnet_id'' @ TAB @ TAB @ ''= '' @ DQ
                 @ ''${DataResourceGroup}'' @ DQ @ NL) else (TAB @ ''subnet_id'' @ TAB @ TAB
                 @ ''= module.${subnet_id}.id'' @ NL))
           else if n = ''service_plan_id'' then
             (if isDataSource gen then (TAB @ ''service_plan_id'' @ TAB @ TAB @ ''= '' @ DQ
                 @ ''${DataResourceGroup}'' @ DQ @ NL) else (TAB @ ''service_plan_id'' @ TAB
                 @ TAB @ ''= module.${service_plan_id}.id'' @ NL))
           else if n = ''storage_account_name'' then
             (if isDataSource gen then (TAB @ ''storage_account_name'' @ TAB @ TAB @ ''= ''
                 @ DQ @ ''${DataResourceGroup}'' @ DQ @ NL) else (TAB
                 @ ''storage_account_name'' @ TAB @ TAB
                 @ ''= module.${storage_account_name}.name'' @ NL))
           else if n = ''storage_uses_managed_identity'' then
             (if isDataSource gen then (TAB @ ''storage_account_name'' @ TAB @ TAB @ ''= ''
                 @ DQ @ ''${DataResourceGroup}'' @ DQ @ NL) else (TAB
                 @ ''storage_uses_managed_identity'' @ TAB @ TAB @ TAB @ TAB
                 @ ''= ${storage_uses_managed_identity}'' @ NL))
           else if n = ''virtual_network_subnet_id'' then
             (if isDataSource gen then (TAB @ ''storage_account_name'' @ TAB @ TAB @ ''= ''
                 @ DQ @ ''${DataResourceGroup}'' @ DQ @ NL) else (TAB
                 @ ''virtual_network_subnet_id'' @ TAB @ TAB @ TAB @ TAB
                 @ ''= module.${virtual_network_subnet_id}.id'' @ NL))
           else if DataTypeString at = valueTypeString TypeList then (TAB @ n @ TAB @ TAB
               @ ''= ${'' @ n @ ''}'' @ NL)
           else (TAB @ n @ TAB @ TAB @ ''= '' @ DQ @ ''${'' @ n @ ''}'' @ DQ @ NL))
        else concat (map (templateLevel2 e gen) (rangeMap e 8 (Attributes at))))
     else [])"

definition terraformTemplateBlockFrom ::
  "env \<Rightarrow> documentationGenerator \<Rightarrow> (string \<times> attribute) list \<Rightarrow> string" where
  "terraformTemplateBlockFrom e gen attributes =
     (if resourceName gen \<noteq> ''terraform_azurerm'' \<and> resourceName gen \<noteq> ''devops_pipeline'' then
        (if isDataSource gen
         then (''data '' @ DQ @ (resourceName gen) @ DQ @ '' '' @ DQ @ ''${''
             @ ''dlta_terraform_module_name'' @ ''}'' @ DQ @ '' {'' @ NL)
         else (''module '' @ DQ @ ''${'' @ ''dlta_terraform_module_name'' @ ''}'' @ DQ
             @ '' {'' @ NL) @ (TAB @ ''source                      = '' @ DQ
             @ ''__modules_path__//r//'' @ (resourceName gen) @ ''//module?ref=main'' @ DQ
             @ NL))
        @ (if DataTypeString (lookupAttribute attributes ''location'') \<noteq> []
           then (TAB @ ''location                    = '' @ DQ @ ''${'' @ ''location''
               @ ''}'' @ DQ @ NL) else [])
        @ (TAB @ ''dlta_location_short_code    = ${'' @ ''dlta_location_short_code'' @ ''}''
            @ NL)
        @ (TAB @ ''dlta_environment_char       = ${'' @ ''dlta_environment_char'' @ ''}'' @ NL)
        @ (TAB @ ''dlta_business_short_code    = ${'' @ ''dlta_business_short_code'' @ ''}''
            @ NL)
        @ (TAB @ ''dlta_application_short_code = ${'' @ ''dlta_application_short_code''
            @ ''}'' @ NL)
        @ (TAB @ ''dlta_instance_id            = ${'' @ ''dlta_instance_id'' @ ''}'' @ NL)
        @ (TAB @ ''dlta_vendor_asset_short_code'' @ TAB @ ''= ${''
            @ ''dlta_vendor_asset_short_code'' @ ''}'' @ NL)
        @ concat (map (templateLevel1 e gen) (rangeMap e 7 attributes))
        @ (''}'' @ NL)
      else if resourceName gen = ''terraform_azurerm'' then
        (''terraform {'' @ NL) @ (TAB @ ''required_providers {'' @ NL) @ (TAB @ TAB
            @ ''azurerm = {'' @ NL)
        @ (TAB @ TAB @ TAB @ ''source =  '' @ DQ @ ''${''
            @ ''terraform_azurerm_azurerm_source'' @ ''}'' @ DQ @ NL)
        @ (TAB @ TAB @ TAB @ ''version = '' @ DQ @ ''${''
            @ ''terraform_azurerm_azurerm_version'' @ ''}'' @ DQ @ NL)
        @ (TAB @ TAB @ ''}'' @ NL) @ (TAB @ TAB @ ''azapi = {'' @ NL)
        @ (TAB @ TAB @ TAB @ ''source =  '' @ DQ @ ''${''
            @ ''terraform_azurerm_azapi_source'' @ ''}'' @ DQ @ NL)
        @ (TAB @ TAB @ TAB @ ''version = '' @ DQ @ ''${''
            @ ''terraform_azurerm_azapi_version'' @ ''}'' @ DQ @ NL)
        @ (TAB @ TAB @ ''}'' @ NL) @ (TAB @ ''}'' @ NL) @ (TAB @ ''backend '' @ DQ
            @ ''azurerm'' @ DQ @ '' {'' @ NL) @ (TAB @ ''}'' @ NL) @ (''}'' @ NL)
        @ (''provider '' @ DQ @ ''azurerm'' @ DQ @ '' {'' @ NL) @ (TAB @ ''features {'' @ NL)
            @ (TAB @ ''}'' @ NL) @ (''}'' @ NL)
      else if resourceName gen = ''devops_pipeline'' then
        (''name: $(connection)-$(Date:yyyyMMdd)$(Rev:.r)'' @ NL) @ (''variables:'' @ NL)
            @ (''  connection: '' @ SQ @ ''sub-ret-d-001'' @ SQ @ NL) @ (''trigger: none''
            @ NL) @ (''resources:'' @ NL) @ (''  repositories:'' @ NL) @ (TAB
            @ ''- repository: Repo.Pipelines'' @ NL)
        @ (TAB @ ''  type: git'' @ NL) @ (TAB @ ''  name: Repo.Pipelines'' @ NL) @ (TAB
            @ ''  ref: refs/heads/main'' @ NL) @ (''stages:'' @ NL)
            @ (''- template: TerraformStages.yml@Repo.Pipelines'' @ NL) @ (''  parameters:''
            @ NL) @ (TAB @ ''ServiceShort      : storage_policy_test'' @ NL)
        @ (TAB @ ''serviceConnection : '' @ SQ @ ''ServiceConnection.sub-ret-d-001'' @ SQ
            @ NL) @ (TAB @ ''EnvironmentShort  : dev'' @ NL)
      else [])"

definition terraformTemplateBlock :: "env \<Rightarrow> documentationGenerator \<Rightarrow> world \<Rightarrow> string" where
  "terraformTemplateBlock e gen w = terraformTemplateBlockFrom e gen (injectAttributes e gen w)"

subsection \<open>terraformModuleBlock\<close>

definition moduleLevel3 :: "string \<times> attribute \<Rightarrow> string" where
  "moduleLevel3 = (\<lambda>(k2, a2).
     if k2 = ''name'' then
       (let vn = genVariableNameFromResourcePath (ResourcePath a2) in (TAB @ TAB @ TAB
           @ ''name = var.'' @ vn @ NL))
     else (TAB @ TAB @ TAB @ k2 @ '' = var.'' @ k2 @ NL))"

definition moduleLevel2 :: "env \<Rightarrow> string \<times> attribute \<Rightarrow> string" where
  "moduleLevel2 e = (\<lambda>(k, a).
     if \<not> IsBlock a then
       (if k = ''name'' then (let cs = pathWithoutResource (ResourcePath a) in (TAB @ TAB
           @ ''name = local.'' @ cs @ NL))
        else (TAB @ TAB @ k @ '' = var.'' @ k @ NL))
     else (TAB @ TAB @ k @ '' {'' @ NL)
         @ concat (map moduleLevel3 (rangeMap e 12 (Attributes a))) @ (TAB @ TAB @ ''}'' @ NL))"

text \<open>
  One round of the outer loop appends to \<open>moduleBlock\<close> (first component) or to
  \<open>appendBlock\<close> (second component).
\<close>

definition moduleLevel1 :: "env \<Rightarrow> string \<times> attribute \<Rightarrow> string \<times> string" where
  "moduleLevel1 e = (\<lambda>(n, at).
     if Computed at then ([], [])
     else if n = ''name'' then ([], [])
     else if contains n ''dlta_'' then ([], [])
     else if \<not> IsBlock at then
       (if DataTypeString at = valueTypeString TypeList then ([], (TAB @ n @ '' = var.'' @ n
           @ NL))
        else ((TAB @ n @ '' = var.'' @ n @ NL), []))
     else ((TAB @ n @ '' {'' @ NL)
         @ concat (map (moduleLevel2 e) (rangeMap e 11 (Attributes at)))
           @ (TAB @ ''}'' @ NL), []))"

definition terraformModuleBlockFrom ::
  "env \<Rightarrow> documentationGenerator \<Rightarrow> (string \<times> attribute) list \<Rightarrow> string" where
  "terraformModuleBlockFrom e gen attributes =
     (let rounds = map (moduleLevel1 e) (rangeMap e 10 attributes);
          moduleBlock = (''resource '' @ DQ @ (resourceName gen) @ DQ @ '' '' @ DQ @ ''this''
              @ DQ @ '' {'' @ NL) @ (TAB @ ''name = local.name'' @ NL)
              @ concat (map fst rounds);
          appendBlock = concat (map snd rounds)
      in moduleBlock @ appendBlock @ (''}'' @ NL))"

definition terraformModuleBlock :: "env \<Rightarrow> documentationGenerator \<Rightarrow> world \<Rightarrow> string" where
  "terraformModuleBlock e gen w = terraformModuleBlockFrom e gen (injectAttributes e gen w)"

subsection \<open>terraformVariableBlock\<close>

text \<open>
  The four places that declare a variable append the same five pieces; \<open>withDefault\<close> is
  the test the place makes before the \<open>default\<close> line (in the nested loops the source
  tests the \<open>Default\<close> of the outermost attribute).
\<close>

definition variableDeclaration :: "string \<Rightarrow> attribute \<Rightarrow> bool \<Rightarrow> string" where
  "variableDeclaration n at withDefault =
     (''variable '' @ DQ @ n @ DQ @ '' {'' @ NL) @ (TAB @ ''description = '' @ DQ
         @ (Description at) @ DQ @ NL) @ (TAB @ ''type = ''
         @ (translateDataType (DataTypeString at)) @ NL)
     @ (if withDefault then (TAB @ ''default = '' @ DQ @ (Default at) @ DQ @ NL) else [])
         @ (''}'' @ NL)"

definition variableLevel3 :: "attribute \<Rightarrow> string \<times> attribute \<Rightarrow> string" where
  "variableLevel3 at = (\<lambda>(n2, at2).
     if n2 = ''name'' then
       (let cs = pathWithoutResource (ResourcePath at2)
        in variableDeclaration cs at2 (Default at \<noteq> []))
     else variableDeclaration n2 at2 (Default at \<noteq> []))"

definition variableLevel2 :: "env \<Rightarrow> attribute \<Rightarrow> string \<times> attribute \<Rightarrow> string" where
  "variableLevel2 e at = (\<lambda>(n1, at1).
     if \<not> IsBlock at1 then
       (if n1 = ''name'' then [] else variableDeclaration n1 at1 (Default at \<noteq> []))
     else concat (map (variableLevel3 at) (rangeMap e 15 (Attributes at1))))"

definition variableLevel1 :: "env \<Rightarrow> string \<times> attribute \<Rightarrow> string" where
  "variableLevel1 e = (\<lambda>(n, at).
     if n = ''name'' then []
     else if n \<noteq> ''dlta_terraform_template'' \<and> n \<noteq> ''dlta_naming_convention''
             \<and> n \<noteq> ''dlta_terraform_module_name'' \<and> n \<noteq> ''dlta_terraform_is_data_source'' then
       (if \<not> Computed at then
          (if \<not> IsBlock at then variableDeclaration n at (Default at \<noteq> [])
           else concat (map (variableLevel2 e at) (rangeMap e 14 (Attributes at))))
        else [])
     else [])"

definition terraformVariableBlockFrom :: "env \<Rightarrow> (string \<times> attribute) list \<Rightarrow> string" where
  "terraformVariableBlockFrom e attributes =
     concat (map (variableLevel1 e) (rangeMap e 13 attributes))"

definition terraformVariableBlock :: "env \<Rightarrow> documentationGenerator \<Rightarrow> world \<Rightarrow> string" where
  "terraformVariableBlock e gen w = terraformVariableBlockFrom e (injectAttributes e gen w)"

subsection \<open>terraformLocalBlock\<close>

text \<open>
  \<open>getResourceShortCode\<close> may panic, so a round of the inner loop gives \<open>None\<close> or the text
  it appends, and so do the outer loop and the generator.
\<close>

definition concatRounds :: "string option list \<Rightarrow> string option" where
  "concatRounds rounds = map_option concat (those rounds)"

definition localLevel2 :: "string \<times> attribute \<Rightarrow> string option" where
  "localLevel2 = (\<lambda>(k, a).
     if k = ''name'' then
       (let pieces = splitOn (CHR ''.'') (ResourcePath a);
            variableName = pathWithoutResource (ResourcePath a);
            resourceName = (if 1 < length pieces then pieces ! 1 else [])
        in case getResourceShortCode resourceName of
             None \<Rightarrow> None
           | Some resShort1 \<Rightarrow>
               Some (TAB @ variableName @ '' = format('' @ DQ @ ''%'' @ ''s-'' @ ''%''
                   @ ''s-'' @ ''%'' @ ''s-'' @ ''%'' @ ''s-'' @ ''%'' @ ''s-'' @ ''%''
                   @ ''s'' @ DQ @ '','' @ DQ @ resShort1 @ DQ @ '',var.''
                   @ ''dlta_business_short_code'' @ '',var.''
                   @ ''dlta_application_short_code'' @ '',var.'' @ ''dlta_environment_char''
                   @ '',var.'' @ ''dlta_location_short_code'' @ '',var.''
                   @ ''dlta_instance_id'' @ '')'' @ NL))
     else Some [])"

definition localLevel1 :: "env \<Rightarrow> documentationGenerator \<Rightarrow> string \<times> attribute \<Rightarrow> string option"
where
  "localLevel1 e gen = (\<lambda>(n, at).
     let named =
           (if n = ''name'' then
              (if resourceName gen = ''azurerm_storage_account''
               then (TAB @ ''name = format('' @ DQ @ ''%'' @ ''s'' @ ''%'' @ ''s'' @ ''%''
                   @ ''s'' @ ''%'' @ ''s'' @ ''%'' @ ''s'' @ ''%'' @ ''s'' @ DQ @ '',var.''
                   @ ''dlta_vendor_asset_short_code'' @ '',var.''
                   @ ''dlta_business_short_code'' @ '',var.''
                   @ ''dlta_application_short_code'' @ '',var.'' @ ''dlta_environment_char''
                   @ '',var.'' @ ''dlta_location_short_code'' @ '',var.''
                   @ ''dlta_instance_id'' @ '')'' @ NL)
               else (TAB @ ''name = format('' @ DQ @ ''%'' @ ''s-'' @ ''%'' @ ''s-'' @ ''%''
                   @ ''s-'' @ ''%'' @ ''s-'' @ ''%'' @ ''s-'' @ ''%'' @ ''s'' @ DQ
                   @ '',var.'' @ ''dlta_vendor_asset_short_code'' @ '',var.''
                   @ ''dlta_business_short_code'' @ '',var.''
                   @ ''dlta_application_short_code'' @ '',var.'' @ ''dlta_environment_char''
                   @ '',var.'' @ ''dlta_location_short_code'' @ '',var.''
                   @ ''dlta_instance_id'' @ '')'' @ NL))
            else [])
     in if IsBlock at
        then map_option (\<lambda>inner. named @ inner)
               (concatRounds (map localLevel2 (rangeMap e 17 (Attributes at))))
        else Some named)"

definition terraformLocalBlockFrom ::
  "env \<Rightarrow> documentationGenerator \<Rightarrow> (string \<times> attribute) list \<Rightarrow> string option" where
  "terraformLocalBlockFrom e gen attributes =
     map_option (\<lambda>body. (''locals {'' @ NL) @ body @ (''}'' @ NL))
       (concatRounds (map (localLevel1 e gen) (rangeMap e 16 attributes)))"

definition terraformLocalBlock ::
  "env \<Rightarrow> documentationGenerator \<Rightarrow> world \<Rightarrow> string option" where
  "terraformLocalBlock e gen w = terraformLocalBlockFrom e gen (injectAttributes e gen w)"

subsection \<open>terraformOutputBlock\<close>

definition outputLevel1 :: "documentationGenerator \<Rightarrow> string \<times> attribute \<Rightarrow> string" where
  "outputLevel1 gen = (\<lambda>(k, a).
     ((''output '' @ DQ) @ k @ (DQ @ '' {'' @ NL))
     @ ((TAB @ ''value = '') @ resourceName gen @ (''.this.'') @ k @ (NL))
     @ (''}'' @ NL))"

definition terraformOutputBlock :: "env \<Rightarrow> documentationGenerator \<Rightarrow> string" where
  "terraformOutputBlock e gen =
     (case resource gen of
        None \<Rightarrow> []
      | Some sch \<Rightarrow> concat (map (outputLevel1 gen) (rangeMap e 21 getAllOutputAttributes)))"

subsection \<open>dltaPalletteCodeBlock\<close>

text \<open>
  \<open>basePalette\<close> is the state of \<open>pp\<close> after the assignments at the top of
  \<open>getPalletProp\<close>; the cases of the \<open>switch\<close> change it. \<open>selectFrom\<close> is the pattern of the
  cases with a fixed list of options: the options are appended, the type becomes
  \<open>select\<close> when there are any, and the value becomes that of the first option (every
  list it is used with is a non-empty constant).
\<close>

definition basePalette :: "env \<Rightarrow> attribute \<Rightarrow> string \<Rightarrow> PaletteProp" where
  "basePalette e at name =
     \<lparr>ppID = name, ppName = convertNameToLabel e name, ppDescription = None,
      ppType = translateDataType (DataTypeString at),
      ppCurrentValue = initiaiseAttribute e (DataTypeString at),
      ppFlattenName = Some [], ppFilter = None, ppDisabled = False, ppReadOnly = False,
      ppValidators = [], ppOptions = []\<rparr>"

definition selectFrom :: "PaletteProp \<Rightarrow> KeyValue list \<Rightarrow> PaletteProp" where
  "selectFrom pp opts =
     pp\<lparr>ppOptions := ppOptions pp @ opts,
        ppType := (if 0 < length opts then ''select'' else ppType pp),
        ppCurrentValue := JString (Value (opts ! 0))\<rparr>"

definition getPalletProp ::
  "env \<Rightarrow> documentationGenerator \<Rightarrow> world \<Rightarrow> attribute \<Rightarrow> string \<Rightarrow> PaletteProp" where
  "getPalletProp e gen w at name =
     (let pp = basePalette e at name in
      if name = ''name'' then
        (if 0 < length (PossibleOptions at) \<or> 0 < length (PossibleValues at) then
           (let vn = genVariableNameFromResourcePath (ResourcePath at);
                pp1 = basePalette e at vn;
                pp2 = (if 0 < length (PossibleValues at) then
                         (let pp' = pp1\<lparr>ppOptions := ppOptions pp1
                             @ keyValues (PossibleValues at)\<rparr>
                          in if DataTypeString at = valueTypeString TypeList
                             then pp'\<lparr>ppType := ''checkboxes'', ppCurrentValue := JStringSlice None\<rparr>
                             else pp'\<lparr>ppType := ''select'', ppCurrentValue := JString []\<rparr>)
                       else pp1)
            in if DataTypeString at = ''TypeBool'' then pp2\<lparr>ppType := ''checkbox''\<rparr> else pp2)
         else pp)
      else if name = ''AssetType'' then
        pp\<lparr>ppID := ''AssetType'', ppType := ''string'', ppName := ''Asset Type:'',
           ppDisabled := True, ppFlattenName := Some ''AssetType'',
           ppCurrentValue := JString (resourceName gen)\<rparr>
      else if name = ''Name'' then
        pp\<lparr>ppID := ''name'', ppType := ''string'', ppName := ''Name:'', ppDisabled := True,
           ppFlattenName := Some ''Name'',
           ppCurrentValue := initiaiseAttribute e ''TypeString'',
           ppValidators := [(''required'', JBool True), (''minLength'', JInt 3)]\<rparr>
      else if name = ''location'' then selectFrom pp dlta_location_options
      else if name = ''dlta_application_short_code'' then
        selectFrom pp dlta_application_short_code_options
      else if name = ''dlta_business_short_code'' then
        selectFrom pp dlta_business_short_code_options
      else if name = ''dlta_environment_char'' then selectFrom pp dlta_environment_char_options
      else if name = ''dlta_instance_id'' then selectFrom pp dlta_instance_id_options
      else if name = ''dlta_location_short_code'' then
        selectFrom pp dlta_location_short_code_options
      else if name = ''dlta_vendor_asset_short_code'' then
        pp\<lparr>ppCurrentValue := JString (ShortCode gen), ppDisabled := True\<rparr>
      else if name = ''dlta_terraform_template'' then
        pp\<lparr>ppCurrentValue := JString (terraformTemplateBlock e gen w), ppDisabled := True,
           ppType := ''textarea''\<rparr>
      else if name = ''dlta_terraform_is_data_source'' then
        pp\<lparr>ppCurrentValue := (if isDataSource gen then JString ''data'' else JString ''resource''),
           ppDisabled := True\<rparr>
      else if name = ''resource_group_name'' then
        (if isDataSource gen then
           PaletteProp0\<lparr>ppID := ''DataResourceGroup'', ppType := ''string'',
             ppName := ''Resource Group:'', ppDisabled := False, ppFlattenName := Some [],
             ppCurrentValue := JNil\<rparr>
         else
           PaletteProp0\<lparr>ppID := ''ResourceGroup'', ppType := ''string'',
             ppName := ''Resource Group:'', ppDisabled := True,
             ppFlattenName := Some ''ResourceGroups'', ppCurrentValue := JNil\<rparr>)
      else if name = ''terraform_azurerm_azapi_source'' then
        selectFrom pp terraform_azurerm_azapi_source_options
      else if name = ''terraform_azurerm_azapi_version'' then
        selectFrom pp terraform_azurerm_azapi_version_options
      else if name = ''terraform_azurerm_azurerm_source'' then
        selectFrom pp terraform_azurerm_azurerm_source_options
      else if name = ''terraform_azurerm_azurerm_version'' then
        selectFrom pp terraform_azurerm_azurerm_version_options
      else if name = ''dlta_naming_convention'' then
        pp\<lparr>ppCurrentValue := JString (NamingConvention gen), ppDisabled := True\<rparr>
      else
        (let pp2 = (if 0 < length (PossibleValues at) then
                      (let pp' = pp\<lparr>ppOptions := ppOptions pp
                          @ keyValues (PossibleValues at)\<rparr>
                       in if DataTypeString at = valueTypeString TypeList
                          then pp'\<lparr>ppType := ''checkboxes'', ppCurrentValue := JStringSlice None\<rparr>
                          else pp'\<lparr>ppType := ''select''\<rparr>)
                    else pp)
         in if DataTypeString at = ''TypeBool'' then pp2\<lparr>ppType := ''checkbox''\<rparr> else pp2))"

text \<open>
  One round of the loop of \<open>dltaPalletteCodeBlock\<close> gives the controls it appends to
  \<open>creation.Props\<close>. The chain of comparisons of \<open>n\<close> in the source calls
  \<open>getPalletProp(fs, n)\<close> in every branch (each branch passes the literal that \<open>n\<close> was just
  found equal to), and its result is used for an attribute that is not a block only.
\<close>

definition paletteLevel2 ::
  "env \<Rightarrow> documentationGenerator \<Rightarrow> world \<Rightarrow> string \<times> attribute \<Rightarrow> PaletteProp list" where
  "paletteLevel2 e gen w = (\<lambda>(n1, at).
     if \<not> IsBlock at then [getPalletProp e gen w at n1]
     else map (\<lambda>(n2, at2). getPalletProp e gen w at2 n2) (rangeMap e 20 (Attributes at)))"

definition paletteLevel1 ::
  "env \<Rightarrow> documentationGenerator \<Rightarrow> world \<Rightarrow> string \<times> attribute \<Rightarrow> PaletteProp list" where
  "paletteLevel1 e gen w = (\<lambda>(n, fs).
     if n = ''name'' then []
     else if IsBlock fs then concat (map (paletteLevel2 e gen w) (rangeMap e 19 (Attributes fs)))
     else [getPalletProp e gen w fs n])"

definition paletteCreation ::
  "env \<Rightarrow> documentationGenerator \<Rightarrow> world \<Rightarrow> (string \<times> attribute) list \<Rightarrow> Creator" where
  "paletteCreation e gen w attributes =
     \<lparr>CreateFunction = resourceName gen,
      Props =
        [getPalletProp e gen w attribute0 ''AssetType'']
        @ (if resourceName gen \<noteq> ''terraform_azurerm'' \<and> resourceName gen \<noteq> ''devops_pipeline''
              \<and> \<not> isDataSource gen
           then [getPalletProp e gen w attribute0 ''Name''] else [])
        @ concat (map (paletteLevel1 e gen w) (rangeMap e 18 attributes))\<rparr>"

text \<open>
  The second and third lines of the INSERT statement: the list of columns, and the list
  of values with the UUID and, three times, the resource name.
\<close>

definition paletteInsertColumns :: string where
  "paletteInsertColumns = (TAB @ TAB @ TAB @ TAB @ ''id, '' @ TAB @ TAB
      @ ''guid, infra_id, name,'' @ TAB @ ''label,'' @ TAB @ ''type,'' @ TAB @ ''active, ''
      @ TAB @ ''addable,'' @ TAB @ ''asset_type,'' @ TAB @ ''reflect_type, '' @ TAB
      @ ''palette_design, form_fields, '' @ TAB
      @ ''attributes, created_at, updated_at, deleted_at, updated_by,'' @ TAB @ ''rank, ''
      @ TAB @ ''has_cost, svg_icon) values ('' @ NL)"

definition paletteInsertValues :: "env \<Rightarrow> documentationGenerator \<Rightarrow> string" where
  "paletteInsertValues e gen =
     (TAB @ ''DEFAULT, '' @ TAB @ SQ @ (uuidNew e) @ SQ @ '', 1, '' @ TAB @ TAB @ SQ
         @ (resourceName gen) @ SQ @ '', '' @ TAB @ SQ @ (resourceName gen) @ SQ @ '', ''
         @ TAB @ SQ @ SQ @ '', '' @ TAB @ ''true, '' @ TAB @ TAB @ ''true, '' @ TAB @ TAB
         @ SQ @ (resourceName gen) @ SQ @ '','' @ TAB @ TAB @ SQ @ ''none'' @ SQ @ '', ''
         @ TAB @ TAB @ ''null, '' @ TAB @ TAB @ TAB @ SQ @ ''{}'' @ SQ @ '', '' @ TAB @ TAB
         @ TAB @ ''null, '' @ TAB @ TAB @ ''now(), '' @ TAB @ TAB @ ''now(), '' @ TAB @ TAB
         @ ''null, '' @ TAB @ TAB @ ''1,'' @ TAB @ TAB @ TAB @ ''14, '' @ TAB @ ''false, ''
         @ TAB @ TAB @ SQ @ SQ @ TAB @ NL)"

definition dltaPalletteCodeBlockFrom ::
  "env \<Rightarrow> documentationGenerator \<Rightarrow> world \<Rightarrow> (string \<times> attribute) list \<Rightarrow> string" where
  "dltaPalletteCodeBlockFrom e gen w attributes =
     (''insert into core.infra_asset ('' @ NL)
     @ paletteInsertColumns
     @ paletteInsertValues e gen
     @ ('');'' @ NL)
     @ (''UPDATE core.infra_asset SET has_cost= '' @ ''false'' @ '','' @ NL
         @ ''form_fields = '' @ SQ)
     @ jsonMarshalCreator e (paletteCreation e gen w attributes)
     @ (SQ @ NL @ ''where asset_type = '' @ SQ @ (resourceName gen) @ SQ)
     @ ('';'')"

text \<open>
  Reading a line of SQL as a list: the pieces between commas, without the blanks (tabs,
  spaces, line ends) in front of them.
\<close>

definition isBlank :: "char \<Rightarrow> bool" where
  "isBlank c = (c = CHR 0x09 \<or> c = CHR 0x0A \<or> c = CHR '' '')"

definition sqlFields :: "string \<Rightarrow> string list" where
  "sqlFields row = map (dropWhile isBlank) (splitOn (CHR '','') row)"

definition dltaPalletteCodeBlock :: "env \<Rightarrow> documentationGenerator \<Rightarrow> world \<Rightarrow> string" where
  "dltaPalletteCodeBlock e gen w = dltaPalletteCodeBlockFrom e gen w (injectAttributes e gen w)"

section \<open>The naming convention\<close>

definition namingFields :: "string list" where
  "namingFields =
     [''dlta_vendor_asset_short_code'', ''dlta_business_short_code'',
      ''dlta_application_short_code'', ''dlta_environment_char'', ''dlta_location_short_code'',
      ''dlta_instance_id'']"

definition naming :: "string \<Rightarrow> string \<Rightarrow> bool \<Rightarrow> namingStruct" where
  "naming delim prefix ds =
     \<lparr>Delimiter = delim, StaticName = [], IsDataSource = ds, Prefix = prefix,
      Fields = namingFields\<rparr>"

definition resourceSpecificNaming :: "(string \<times> namingStruct) list" where
  "resourceSpecificNaming =
     [(''terraform_azurerm'',
        \<lparr>Delimiter = ''-'', StaticName = ''terraform_azurerm'', IsDataSource = False,
         Prefix = [], Fields = []\<rparr>),
      (''azurerm_subscription'', naming ''-'' [] False),
      (''azurerm_resource_group'', naming ''-'' [] False),
      (''azurerm_windows_web_app'', naming ''-'' [] False),
      (''azurerm_windows_function_app'', naming ''-'' [] False),
      (''azurerm_service_plan'', naming ''-'' [] False),
      (''azurerm_storage_account'', naming [] [] False),
      (''azurerm_cdn_frontdoor_profile'', naming ''-'' [] False),
      (''azurerm_cdn_frontdoor_endpoint'', naming ''-'' [] False),
      (''azurerm_cdn_frontdoor_origin_group'', naming ''-'' [] False),
      (''azurerm_cdn_frontdoor_origin'', naming ''-'' [] False),
      (''azurerm_key_vault_access_policy'', naming ''-'' [] False),
      (''azurerm_key_vault'', naming ''-'' [] False),
      (''azurerm_private_endpoint'', naming ''-'' [] False),
      (''azurerm_virtual_network'', naming ''-'' [] False),
      (''azurerm_subnet'', naming ''-'' [] False)]"

definition dataSourceSpecificNaming :: "(string \<times> namingStruct) list" where
  "dataSourceSpecificNaming =
     [(''azurerm_subnet'', naming ''-'' ''ds'' True),
      (''azurerm_key_vault_certificate'', naming ''-'' ''ds'' True)]"

fun namingLoop :: "string \<Rightarrow> nat \<Rightarrow> nat \<Rightarrow> string list \<Rightarrow> string" where
  "namingLoop delim n i [] = []"
| "namingLoop delim n i (f # fs) =
     (''${'' @ f @ ''}'') @ (if int i < int n - 1 then delim else [])
         @ namingLoop delim n (Suc i) fs"

definition getResourceNamingConvention :: "string \<Rightarrow> bool \<Rightarrow> string" where
  "getResourceNamingConvention name isData =
     (let entry = (case map_of (if isData then dataSourceSpecificNaming
                                else resourceSpecificNaming) name of
                     None \<Rightarrow> namingStruct0 | Some x \<Rightarrow> x);
          static = StaticName entry; delim = Delimiter entry;
          fields = Fields entry; prefix = Prefix entry
      in if static \<noteq> [] then static
         else (if prefix \<noteq> [] then prefix @ delim else [])
              @ namingLoop delim (length fields) 0 fields)"

section \<open>The run\<close>

definition scaffoldConfiguation :: "env \<Rightarrow> documentationGenerator \<Rightarrow> world \<Rightarrow> string result"
where
  "scaffoldConfiguation e gen w =
     (let w1 = snd (writeResource e gen (terraformTemplateBlock e gen w) TerraformTemplate w);
          w2 = snd (writeResource e gen (terraformModuleBlock e gen w1) ModuleBlock w1);
          w3 = snd (writeResource e gen (terraformVariableBlock e gen w2) VariableBlock w2)
      in case terraformLocalBlock e gen w3 of
           None \<Rightarrow> Panicked w3
         | Some localBlock \<Rightarrow>
             (let w4 = snd (writeResource e gen localBlock LocalBlock w3);
                  w5 = snd (writeResource e gen (dltaPalletteCodeBlock e gen w4) PalletteBlock w4);
                  w6 = snd (writeResource e gen (terraformOutputBlock e gen) OutputBlock w5)
              in Returned [] w6))"



text \<open>
  The errors \<open>getContent\<close> and \<open>run\<close> build with \<open>fmt.Errorf\<close>, and their texts. The verb
  \<open>%q\<close> puts the name between double quotes (and escapes the bytes a Go string literal
  cannot hold as they are, which \<open>errorText\<close> does not do); the wrapped error of the SDK is
  kept as its text.
\<close>

datatype error =
  WrappingDataSource string string
  | DataSourceNotRegistered string
  | WrappingResource string string
  | ResourceNotRegistered string
  | BuildingContent error

fun errorText :: "error \<Rightarrow> string" where
  "errorText (WrappingDataSource n err) = ''wrapping Data Source '' @ DQ @ n @ DQ @ '': ''
      @ err"
| "errorText (DataSourceNotRegistered n) = ''Data Source '' @ DQ @ n @ DQ
    @ '' was not registered!''"
| "errorText (WrappingResource n err) = ''wrapping Resource '' @ DQ @ n @ DQ @ '': '' @ err"
| "errorText (ResourceNotRegistered n) = ''Resource '' @ DQ @ n @ DQ @ '' was not registered!''"
| "errorText (BuildingContent err) = ''building content: '' @ errorText err"

text \<open>
  The two loops of \<open>getContent\<close> over the registered services. In a typed service the
  inner loop stops at the first entry of the wanted name, a failed wrapping returns at
  once, and a later service overrides an earlier one; the untyped services come after
  and override the typed ones.
\<close>

fun wrapTyped ::
  "string \<Rightarrow> (string \<times> (string + (string \<times> schema) list)) list list
   \<Rightarrow> (string \<times> schema) list option \<Rightarrow> string + (string \<times> schema) list option" where
  "wrapTyped name [] found = Inr found"
| "wrapTyped name (entries # services) found =
     (case map_of entries name of
        None \<Rightarrow> wrapTyped name services found
      | Some (Inl err) \<Rightarrow> Inl err
      | Some (Inr r) \<Rightarrow> wrapTyped name services (Some r))"

definition pickUntyped ::
  "string \<Rightarrow> (string \<times> (string \<times> schema) list) list list
   \<Rightarrow> (string \<times> schema) list option \<Rightarrow> (string \<times> schema) list option" where
  "pickUntyped name services found =
     foldl (\<lambda>found entries. case map_of entries name of None \<Rightarrow> found | Some r \<Rightarrow> Some r)
       found services"

definition findResource :: "env \<Rightarrow> string \<Rightarrow> bool \<Rightarrow> error + (string \<times> schema) list" where
  "findResource e name isRes =
     (if \<not> isRes then
        (case wrapTyped name (map DataSources (SupportedTypedServices e)) None of
           Inl err \<Rightarrow> Inl (WrappingDataSource name err)
         | Inr found \<Rightarrow>
             (case pickUntyped name (map SupportedDataSources (SupportedUntypedServices e)) found of
                None \<Rightarrow> Inl (DataSourceNotRegistered name)
              | Some r \<Rightarrow> Inr r))
      else
        (case wrapTyped name (map Resources (SupportedTypedServices e)) None of
           Inl err \<Rightarrow> Inl (WrappingResource name err)
         | Inr found \<Rightarrow>
             (case pickUntyped name (map SupportedResources (SupportedUntypedServices e)) found of
                None \<Rightarrow> Inl (ResourceNotRegistered name)
              | Some r \<Rightarrow> Inr r)))"

text \<open>
  A name is registered, as a resource or as a data source, when some typed or untyped
  service lists it.
\<close>

definition registered :: "env \<Rightarrow> string \<Rightarrow> bool \<Rightarrow> bool" where
  "registered e name isRes =
     (if isRes
      then (\<exists>svc \<in> set (SupportedTypedServices e). name \<in> fst ` set (Resources svc))
           \<or> (\<exists>svc \<in> set (SupportedUntypedServices e). name \<in> fst ` set (SupportedResources svc))
      else (\<exists>svc \<in> set (SupportedTypedServices e). name \<in> fst ` set (DataSources svc))
           \<or> (\<exists>svc \<in> set (SupportedUntypedServices e). name \<in> fst ` set (SupportedDataSources svc)))"

text \<open>
  \<open>generatorOf\<close> is the generator \<open>getContent\<close> has built when it dispatches on the output
  type: the name, the flags, the resource found and the short code.
\<close>

definition generatorOf ::
  "string \<Rightarrow> bool \<Rightarrow> string \<Rightarrow> bool \<Rightarrow> (string \<times> schema) list option \<Rightarrow> string
   \<Rightarrow> documentationGenerator" where
  "generatorOf name isRes path forced res code =
     \<lparr>resource = res, resourceName = name, isDataSource = \<not> isRes, dltaPath = path,
      isResource = isRes, isForced = forced, ShortCode = code,
      NamingConvention = getResourceNamingConvention name (\<not> isRes)\<rparr>"

text \<open>
  \<open>getContent\<close> in its two halves: \<open>resolveGenerator\<close> is the statement that looks the name
  up (or keeps the generator as it is for the two built-in names), and \<open>emit\<close> is what
  follows it: the short code, the naming convention and the dispatch on the output type.
\<close>

definition resolveGenerator ::
  "env \<Rightarrow> documentationGenerator \<Rightarrow> error + documentationGenerator" where
  "resolveGenerator e generator =
     (if resourceName generator \<noteq> ''terraform_azurerm''
         \<and> resourceName generator \<noteq> ''devops_pipeline'' then
        (case findResource e (resourceName generator) (isResource generator) of
           Inl err \<Rightarrow> Inl err
         | Inr r \<Rightarrow> Inr (generator\<lparr>resource := Some r\<rparr>))
      else Inr generator)"

definition emit ::
  "env \<Rightarrow> documentationGenerator \<Rightarrow> string \<Rightarrow> world \<Rightarrow> error option result" where
  "emit e generator outputType w =
     (case getResourceShortCode (resourceName generator) of
        None \<Rightarrow> Panicked w
      | Some code \<Rightarrow>
          (let generator =
                 generator\<lparr>ShortCode := code,
                   NamingConvention :=
                     getResourceNamingConvention (resourceName generator)
                       (isDataSource generator)\<rparr>
           in if outputType = ''init'' then
                (case writeInitResourceProperties e generator w of
                   Panicked w' \<Rightarrow> Panicked w'
                 | Returned s w' \<Rightarrow> Returned None w')
              else if outputType = ''scaffold'' then
                (case scaffoldConfiguation e generator w of
                   Panicked w' \<Rightarrow> Panicked w'
                 | Returned s w' \<Rightarrow> Returned None w')
              else Returned None w))"

definition getContent ::
  "env \<Rightarrow> string \<Rightarrow> bool \<Rightarrow> string \<Rightarrow> string \<Rightarrow> bool \<Rightarrow> world \<Rightarrow> error option result" where
  "getContent e name isRes path outputType forced w =
     (let generator =
            \<lparr>resource = None, resourceName = name, isDataSource = \<not> isRes, dltaPath = path,
             isResource = isRes, isForced = forced, ShortCode = [], NamingConvention = []\<rparr>
      in case resolveGenerator e generator of
           Inl err \<Rightarrow> Returned (Some err) w
         | Inr generator \<Rightarrow> emit e generator outputType w)"

definition run ::
  "env \<Rightarrow> string \<Rightarrow> bool \<Rightarrow> string \<Rightarrow> string \<Rightarrow> bool \<Rightarrow> world \<Rightarrow> error option result" where
  "run e name isRes path outputType forced w =
     (case getContent e name isRes path outputType forced w of
        Panicked w' \<Rightarrow> Panicked w'
      | Returned None w' \<Rightarrow> Returned None w'
      | Returned (Some err) w' \<Rightarrow> Returned (Some (BuildingContent err)) w')"

text \<open>
  \<open>main\<close>, from the values of the flags after parsing (\<open>-force\<close> is \<open>"n"\<close> when not given).
  \<open>quitWithError\<close> logs the message and exits with status 1; an error from \<open>run\<close> becomes a
  panic.
\<close>

record flags =
  flagName :: string
  flagType :: string
  flagDltaPath :: string
  flagOutputType :: string
  flagForce :: string

definition validFlags :: "flags \<Rightarrow> bool" where
  "validFlags fl =
     (flagName fl \<noteq> [] \<and> (flagType fl = ''data'' \<or> flagType fl = ''resource'')
      \<and> (flagOutputType fl = ''init'' \<or> flagOutputType fl = ''scaffold''
           \<or> flagOutputType fl = ''config'')
      \<and> flagDltaPath fl \<noteq> [] \<and> flagForce fl \<noteq> [])"

datatype ending = QuitWithError string | PanicWithError error | PanicAtRuntime | Ended

definition main :: "env \<Rightarrow> flags \<Rightarrow> world \<Rightarrow> ending \<times> world" where
  "main e fl w =
     (if flagName fl = [] then (QuitWithError (''The name of the Data Source/Resource must be specified via `-name`''), w)
      else if flagType fl = [] then (QuitWithError (''The type of the Data Source/Resource must be specified via `-type`''), w)
      else if flagType fl \<noteq> ''data'' \<and> flagType fl \<noteq> ''resource'' then (QuitWithError (''The type of the Data Source/Resource specified via `-type` must be either `data` or `resource`''), w)
      else if flagOutputType fl \<noteq> ''init'' \<and> flagOutputType fl \<noteq> ''scaffold''
              \<and> flagOutputType fl \<noteq> ''config'' then (QuitWithError (''`-output-type` must be either `init`, `scaffold` or `config`''), w)
      else if flagDltaPath fl = [] then (QuitWithError (''The Relative Website Path must be specified via `-dlta-path`''), w)
      else if flagForce fl = [] then (QuitWithError (''The Relative Website Path must be specified via `-dlta-path`''), w)
      else
        (let forced = (flagForce fl = ''y''); isRes = (flagType fl = ''resource'')
         in case run e (flagName fl) isRes (flagDltaPath fl) (flagOutputType fl) forced w of
              Panicked w' \<Rightarrow> (PanicAtRuntime, w')
            | Returned (Some err) w' \<Rightarrow> (PanicWithError err, w')
            | Returned None w' \<Rightarrow> (Ended, w')))"

section \<open>Cutting a tree of attributes\<close>

text \<open>
  \<open>pruneAttribute d a\<close> keeps \<open>a\<close> and \<open>d\<close> levels of attributes below it and empties the
  maps of attributes at that depth; \<open>pruneAttributes d m\<close> does so for every attribute of a
  map. The attributes of a resource are at depth one, so \<open>pruneAttributes 2\<close> keeps the
  fields of the resource, the fields of its blocks and the fields of the blocks inside
  those, and drops whatever is nested more deeply.
\<close>

fun pruneAttribute :: "nat \<Rightarrow> attribute \<Rightarrow> attribute" where
  "pruneAttribute 0 a = setAttributes a []"
| "pruneAttribute (Suc d) a =
     setAttributes a (map (\<lambda>(k, c). (k, pruneAttribute d c)) (Attributes a))"

definition pruneAttributes :: "nat \<Rightarrow> (string \<times> attribute) list \<Rightarrow> (string \<times> attribute) list"
where
  "pruneAttributes d m = map (\<lambda>(k, a). (k, pruneAttribute d a)) m"

section \<open>The property summary, attribute by attribute\<close>

text \<open>
  The body of the loop of \<open>getAllInputAttributes\<close> for one field: \<open>inputAttribute\<close> is the
  attribute it stores for a field that is Required or Optional, in the three cases of
  \<open>Elem\<close>, and \<open>inputField\<close> is what the loop leaves under a field name.
\<close>

definition inputAttribute :: "env \<Rightarrow> string \<Rightarrow> string \<Rightarrow> schema \<Rightarrow> attribute" where
  "inputAttribute e parentPath fieldName s =
     (case sElem s of
        ElemResource sub \<Rightarrow>
          setAttributes (cloneSchemaToAttributes attribute0 s True parentPath fieldName)
            (getAllInputAttributes e sub (parentPath @ ''.'' @ fieldName))
      | ElemSchema b \<Rightarrow>
          appendPossibleValues
            (appendPossibleValues
               (cloneSchemaToAttributes attribute0 s False parentPath fieldName)
               (getSchemaPossibleValues s))
            (getSchemaPossibleValues b)
      | ElemOther \<Rightarrow>
          appendPossibleValues
            (cloneSchemaToAttributes attribute0 s False parentPath fieldName)
            (getSchemaPossibleValues s))"

definition inputField ::
  "env \<Rightarrow> (string \<times> schema) list \<Rightarrow> string \<Rightarrow> string \<Rightarrow> attribute option" where
  "inputField e input parentPath k =
     (case map_of input k of
        None \<Rightarrow> None
      | Some s \<Rightarrow>
          if sRequired s \<or> sOptional s then Some (inputAttribute e parentPath k s) else None)"

text \<open>
  The body of the loop of \<open>summariseAttributes\<close> for one entry of the map: the entries it
  writes, as a map of their own.
\<close>

definition contribution ::
  "env \<Rightarrow> string \<Rightarrow> bool \<Rightarrow> string \<times> attribute \<Rightarrow> (string \<rightharpoonup> summaryAttribute)" where
  "contribution e rn parentRequired =
     (\<lambda>(k, a).
        [ResourcePath a \<mapsto> summaryOf (parentRequired \<and> Required a) a]
        ++ (if IsBlock a
            then map_option stripSummary
                 \<circ> summariseAttributes e (Attributes a) (rn @ ''.'' @ k)
                     (parentRequired \<and> Required a)
            else Map.empty))"

text \<open>
  The words of the specification. An attribute of a schema is named by the field names
  from the top level down to it; \<open>schemasAlong\<close> gives the schemas met on that way, the
  enclosing blocks first and the attribute itself last. \<open>resourcePathOf\<close> is the resource
  path of the attribute: the name of the resource and the field names, joined by dots.
\<close>

fun schemasAlong :: "(string \<times> schema) list \<Rightarrow> string list \<Rightarrow> schema list option" where
  "schemasAlong sch [] = None"
| "schemasAlong sch [n] = map_option (\<lambda>s. [s]) (map_of sch n)"
| "schemasAlong sch (n # m # ms) =
     (case map_of sch n of
        None \<Rightarrow> None
      | Some s \<Rightarrow>
          (case sElem s of
             ElemResource sub \<Rightarrow> map_option ((#) s) (schemasAlong sub (m # ms))
           | _ \<Rightarrow> None))"

definition resourcePathOf :: "string \<Rightarrow> string list \<Rightarrow> string" where
  "resourcePathOf name ns = foldl (\<lambda>p n. p @ ''.'' @ n) name ns"

text \<open>
  \<open>dotFree\<close>: no field name of the schema, at any depth, contains a dot. Then two
  attributes of the schema never have the same resource path.
\<close>

lemma schema_in_list_size:
  "(k, s) \<in> set xs \<Longrightarrow> size (s::schema) \<le> size_list (size_prod (\<lambda>x. 0) size) xs"
  by (induction xs) auto

function dotFree :: "(string \<times> schema) list \<Rightarrow> bool" where
  "dotFree sch =
     list_all (\<lambda>(k, s). CHR ''.'' \<notin> set k
                 \<and> (case sElem s of ElemResource sub \<Rightarrow> dotFree sub | _ \<Rightarrow> True)) sch"
  by pat_completeness auto
termination
  apply (relation "measure (size_list (size_prod (\<lambda>x. 0) size))")
   apply simp
  apply (auto dest!: schema_in_list_size sElem_size)
  done

declare dotFree.simps [simp del]

section \<open>A small provider\<close>

text \<open>
  A provider with one typed service that registers the resource \<open>azurerm_example\<close>: a
  required name, a required resource group name, an optional list of tags and a required
  block \<open>site\<close> with fields of its own, nested four levels deep. The environment has no
  faults, visits maps in the stored order, and serialises with stand-ins for the JSON
  library. These are the concrete inputs the theorems below are instantiated at.
\<close>

definition field :: "valueType \<Rightarrow> bool \<Rightarrow> schema" where
  "field t required =
     Schema t required (\<not> required) False False 0 0 ''a field'' [] None ElemOther"

definition block :: "bool \<Rightarrow> (string \<times> schema) list \<Rightarrow> schema" where
  "block required sub =
     Schema TypeList required (\<not> required) False False 0 0 ''a block'' [] None
       (ElemResource sub)"

definition exampleSchema :: "(string \<times> schema) list" where
  "exampleSchema =
     [(''name'', field TypeString True),
      (''resource_group_name'', field TypeString True),
      (''tags'', field TypeList False),
      (''site'', block True
         [(''kind'', field TypeString True),
          (''limits'', block False
             [(''cpu'', field TypeInt True),
              (''burst'', block True [(''seconds'', field TypeInt True)])])])]"

text \<open>
  A schema whose only field is a block \<open>status\<close> that is Computed and neither Required
  nor Optional, with an optional field \<open>note\<close> inside.
\<close>

definition computedBlockSchema :: "(string \<times> schema) list" where
  "computedBlockSchema =
     [(''status'',
       Schema TypeList False False True False 0 0 ''a block'' [] None
         (ElemResource [(''note'', field TypeString False)]))]"

text \<open>
  Two more schemas with a field \<open>resource_group_name\<close>: in \<open>nestedGroupSchema\<close> it is a
  required field of the required block \<open>site\<close>, in \<open>optionalGroupSchema\<close> it is an optional
  field of the resource; and the generators of the example resource over them.
\<close>

definition nestedGroupSchema :: "(string \<times> schema) list" where
  "nestedGroupSchema =
     [(''site'', block True [(''resource_group_name'', field TypeString True)])]"

definition optionalGroupSchema :: "(string \<times> schema) list" where
  "optionalGroupSchema = [(''resource_group_name'', field TypeString False)]"

definition generatorOver :: "(string \<times> schema) list \<Rightarrow> documentationGenerator" where
  "generatorOver sch = generatorOf ''azurerm_example'' True ''dlta'' False (Some sch) ''ae''"

definition exampleSummary :: "string \<rightharpoonup> summaryAttribute" where
  "exampleSummary =
     (\<lambda>path. Some (summaryAttribute0\<lparr>saPublished := True\<rparr>))"

definition exampleEnv :: env where
  "exampleEnv =
     \<lparr>mapOrder = (\<lambda>site. []), fault = (\<lambda>operation k path. None), uuidNew = ''0000-01'',
      filepathAbs = Some, stringsTrimSpace = (\<lambda>s. s), stringsTitle = (\<lambda>s. s),
      jsonMarshalString = (\<lambda>s. DQ @ s @ DQ),
      jsonMarshalSummary = (\<lambda>m. ''{}''),
      jsonMarshalCreator = (\<lambda>c. concat (map ppID (Props c))),
      jsonUnmarshalSummary = (\<lambda>s. exampleSummary),
      SupportedTypedServices =
        [\<lparr>DataSources = [], Resources = [(''azurerm_example'', Inr exampleSchema)]\<rparr>],
      SupportedUntypedServices = []\<rparr>"

text \<open>
  The world holds the property summary of the example resource, at the path where \<open>init\<close>
  writes it and \<open>scaffold\<close> reads it, and nothing else.
\<close>

definition exampleWorld :: world where
  "exampleWorld =
     \<lparr>files = [''dlta/r/azurerm_example/resource/azurerm_example.json'' \<mapsto> ''{}''],
      out = []\<rparr>"


definition exampleGenerator :: "bool \<Rightarrow> documentationGenerator" where
  "exampleGenerator forced =
     generatorOf ''azurerm_example'' True ''dlta'' forced (Some exampleSchema) ''ae''"

definition exampleFlags :: "string \<Rightarrow> flags" where
  "exampleFlags force =
     \<lparr>flagName = ''azurerm_example'', flagType = ''resource'', flagDltaPath = ''dlta'',
      flagOutputType = ''init'', flagForce = force\<rparr>"

definition scaffoldFlags :: flags where
  "scaffoldFlags = (exampleFlags ''y'')\<lparr>flagOutputType := ''scaffold''\<rparr>"

text \<open>
  \<open>initialisedEnv sch\<close> is the example environment when the summary file holds what \<open>init\<close>
  computes for the schema \<open>sch\<close>: parsing it gives \<open>initSummary\<close>. \<open>exampleTemplateHead\<close> is
  what the template of the example resource has before the lines of the attributes.
\<close>

definition initialisedEnv :: "(string \<times> schema) list \<Rightarrow> env" where
  "initialisedEnv sch =
     exampleEnv\<lparr>jsonUnmarshalSummary := (\<lambda>s. initSummary exampleEnv (generatorOver sch) sch)\<rparr>"

definition exampleTemplateHead :: string where
  "exampleTemplateHead =
     (''module '' @ DQ @ ''${'' @ ''dlta_terraform_module_name'' @ ''}'' @ DQ @ '' {'' @ NL)
         @ (TAB @ ''source                      = '' @ DQ @ ''__modules_path__//r//''
         @ ''azurerm_example'' @ ''//module?ref=main'' @ DQ @ NL)
     @ (TAB @ ''dlta_location_short_code    = ${'' @ ''dlta_location_short_code'' @ ''}'' @ NL)
     @ (TAB @ ''dlta_environment_char       = ${'' @ ''dlta_environment_char'' @ ''}'' @ NL)
     @ (TAB @ ''dlta_business_short_code    = ${'' @ ''dlta_business_short_code'' @ ''}'' @ NL)
     @ (TAB @ ''dlta_application_short_code = ${'' @ ''dlta_application_short_code'' @ ''}''
         @ NL)
     @ (TAB @ ''dlta_instance_id            = ${'' @ ''dlta_instance_id'' @ ''}'' @ NL)
     @ (TAB @ ''dlta_vendor_asset_short_code'' @ TAB @ ''= ${''
         @ ''dlta_vendor_asset_short_code'' @ ''}'' @ NL)"



definition emptyWorld :: world where
  "emptyWorld = \<lparr>files = Map.empty, out = []\<rparr>"

definition exampleAttributes :: "(string \<times> attribute) list" where
  "exampleAttributes = getAllInputAttributes exampleEnv exampleSchema ''azurerm_example''"

section \<open>Short codes\<close>

lemma shortCodeLoop_general:
  "parts \<noteq> 1 \<or> i \<noteq> 0 \<Longrightarrow>
   shortCodeLoop parts i vs acc =
     (if \<forall>v\<in>set vs. v \<noteq> [] then Some (acc @ map hd vs) else None)"
proof (induction vs arbitrary: i acc)
  case Nil
  then show ?case by simp
next
  case (Cons v vs)
  have step: "parts \<noteq> 1 \<or> Suc i \<noteq> 0" by simp
  show ?case
  proof (cases v)
    case Nil
    with Cons.prems show ?thesis by auto
  next
    case (Cons c cs)
    with Cons.prems Cons.IH [OF step] show ?thesis by auto
  qed
qed

text \<open>
  Claim C9. For a resource name of at least two bytes whose pieces between underscores
  are all non-empty, \<open>getResourceShortCode\<close> returns the first byte of each piece, in order.
  For every name, of any length, the slice \<open>v[0:1]\<close> stays in bounds (the function returns
  instead of panicking) exactly when no piece is empty.
\<close>

theorem getResourceShortCode_first_bytes:
  "(2 \<le> length n \<and> (\<forall>v \<in> set (splitOn (CHR ''_'') n). v \<noteq> [])
      \<longrightarrow> getResourceShortCode n = Some (map hd (splitOn (CHR ''_'') n)))
   \<and> (getResourceShortCode n \<noteq> None \<longleftrightarrow> (\<forall>v \<in> set (splitOn (CHR ''_'') n). v \<noteq> []))"
proof (cases "length n = 1")
  case True
  then obtain x where n: "n = [x]" by (cases n) auto
  show ?thesis
    by (simp add: n getResourceShortCode_def)
next
  case False
  then have "length n \<noteq> 1 \<or> (0::nat) \<noteq> 0" by simp
  from shortCodeLoop_general [OF this]
  show ?thesis by (simp add: getResourceShortCode_def)
qed

theorem getResourceShortCode_first_bytes_witness:
  "getResourceShortCode ''azurerm_service_plan'' = Some ''asp''
   \<and> getResourceShortCode ''azurerm__plan'' = None"
  using getResourceShortCode_first_bytes [of "''azurerm_service_plan''"]
        getResourceShortCode_first_bytes [of "''azurerm__plan''"]
  by simp

section \<open>Names that are not registered\<close>

lemma wrapTyped_no_match:
  "\<forall>entries \<in> set services. map_of entries name = None \<Longrightarrow> wrapTyped name services found = Inr found"
  by (induction services arbitrary: found) auto

lemma pickUntyped_no_match:
  "\<forall>entries \<in> set services. map_of entries name = None \<Longrightarrow> pickUntyped name services found = found"
  unfolding pickUntyped_def by (induction services arbitrary: found) auto

lemma findResource_not_registered:
  assumes "\<not> registered e name isRes"
  shows "findResource e name isRes
         = Inl (if isRes then ResourceNotRegistered name else DataSourceNotRegistered name)"
proof (cases isRes)
  case True
  with assms have t: "\<forall>entries \<in> set (map Resources (SupportedTypedServices e)). map_of entries name = None"
    and u: "\<forall>entries \<in> set (map SupportedResources (SupportedUntypedServices e)). map_of entries name = None"
    by (auto simp: registered_def map_of_eq_None_iff)
  show ?thesis
    using True by (simp add: findResource_def wrapTyped_no_match [OF t] pickUntyped_no_match [OF u])
next
  case False
  with assms have t: "\<forall>entries \<in> set (map DataSources (SupportedTypedServices e)). map_of entries name = None"
    and u: "\<forall>entries \<in> set (map SupportedDataSources (SupportedUntypedServices e)). map_of entries name = None"
    by (auto simp: registered_def map_of_eq_None_iff)
  show ?thesis
    using False by (simp add: findResource_def wrapTyped_no_match [OF t] pickUntyped_no_match [OF u])
qed

text \<open>
  Claim C4. When the name is neither \<open>terraform_azurerm\<close> nor \<open>devops_pipeline\<close> and no
  service registers it (as a resource for \<open>-type resource\<close>, as a data source for
  \<open>-type data\<close>), \<open>getContent\<close> returns the error that says the resource, or data source,
  was not registered, \<open>run\<close> wraps it, and the world returned is the world given: no file
  is written and nothing is printed.
\<close>

theorem getContent_not_registered:
  assumes "name \<noteq> ''terraform_azurerm''" and "name \<noteq> ''devops_pipeline''"
    and "\<not> registered e name isRes"
  shows "getContent e name isRes path outputType forced w
           = Returned (Some (if isRes then ResourceNotRegistered name
                             else DataSourceNotRegistered name)) w
         \<and> run e name isRes path outputType forced w
           = Returned (Some (BuildingContent (if isRes then ResourceNotRegistered name
                                              else DataSourceNotRegistered name))) w"
  using assms(1,2) findResource_not_registered [OF assms(3)]
  by (simp add: getContent_def resolveGenerator_def run_def)

theorem getContent_not_registered_witness:
  "\<not> registered exampleEnv ''azurerm_missing'' False
   \<and> getContent exampleEnv ''azurerm_missing'' False ''dlta'' ''scaffold'' True exampleWorld
       = Returned (Some (DataSourceNotRegistered ''azurerm_missing'')) exampleWorld
   \<and> errorText (DataSourceNotRegistered ''azurerm_missing'')
       = ''Data Source '' @ DQ @ ''azurerm_missing'' @ DQ @ '' was not registered!''"
  using getContent_not_registered [of "''azurerm_missing''" exampleEnv False "''dlta''" "''scaffold''" True exampleWorld]
  by (simp add: registered_def exampleEnv_def)

section \<open>Writing files\<close>











text \<open>What the shared steps do on a path that no fault touches.\<close>

lemma clearPrevious_sound:
  assumes "\<forall>operation k. fault e operation k p = None"
  shows "clearPrevious e forced p w = (if forced then w\<lparr>files := (files w)(p := None)\<rparr> else w)"
  using assms by (cases "files w p") (simp_all add: clearPrevious_def osStat_def osRemove_def fun_upd_idem)


lemma createAndWrite_quiet:
  assumes "\<forall>operation k. fault e operation k p = None" and "fault e OpMkdirAll 0 d = None"
  shows "createAndWrite e who d p s w = w\<lparr>files := (files w)(p \<mapsto> s)\<rparr>"
  using assms
  by (simp add: createAndWrite_def Let_def osCreate_def osIsExist_def fileWriteString_def
      osMkdirAll_def)








lemma writeResource_kept:
  assumes "fault e OpStat 1 (writeResourcePath gen a) = None"
    and "files w (writeResourcePath gen a) = Some old" and "\<not> isForced gen"
  shows "writeResource e gen s a w
         = ([], w\<lparr>out := out w @ [(''writeResource '' @ DQ @ ''3. File exists error''
             @ DQ @ ''  on path: '' @ (writeResourcePath gen a) @ NL)]\<rparr>)"
  using assms by (simp add: writeResource_def Let_def clearPrevious_def osStat_def printf_def)

lemma writeResource_written:
  assumes "\<forall>operation k. fault e operation k (writeResourcePath gen a) = None"
    and "fault e OpMkdirAll 0 (writeResourceDirectory gen a) = None"
    and "isForced gen \<or> files w (writeResourcePath gen a) = None"
  shows "writeResource e gen s a w = ([], w\<lparr>files := (files w)(writeResourcePath gen a \<mapsto> s)\<rparr>)"
  using assms
  by (auto simp add: writeResource_def Let_def clearPrevious_sound createAndWrite_quiet osStat_def)

lemma writeInit_kept:
  assumes "fault e OpStat 1 (initPath gen) = None"
    and "files w (initPath gen) = Some old" and "\<not> isForced gen"
    and "resource gen = Some sch" and "\<not> specialName (resourceName gen)"
  shows "writeInitResourceProperties e gen w
         = Returned [] (w\<lparr>out := out w @ [(''initResourceProperties '' @ DQ
             @ ''3. File exists error'' @ DQ @ '': '' @ (initPath gen) @ NL)]\<rparr>)"
  using assms
  by (simp add: writeInitResourceProperties_def Let_def clearPrevious_def osStat_def printf_def
      specialName_def)

lemma writeInit_written:
  assumes "\<forall>operation k. fault e operation k (initPath gen) = None"
    and "fault e OpMkdirAll 0 (initDirectory gen) = None"
    and "isForced gen \<or> files w (initPath gen) = None"
    and "resource gen = Some sch" and "\<not> specialName (resourceName gen)"
  shows "writeInitResourceProperties e gen w
         = Returned [] (w\<lparr>files := (files w)(initPath gen \<mapsto>
               stringsTrimSpace e (jsonMarshalSummary e (initSummary e gen sch)))\<rparr>)"
  using assms
  by (auto simp add: writeInitResourceProperties_def Let_def clearPrevious_sound
      createAndWrite_quiet osStat_def specialName_def)


section \<open>What a run writes\<close>

lemma getContent_found:
  assumes "\<not> specialName name" and "findResource e name isRes = Inr sch"
    and "getResourceShortCode name = Some code"
  shows "getContent e name isRes path outputType forced w =
     (let generator = generatorOf name isRes path forced (Some sch) code
      in if outputType = ''init'' then
           (case writeInitResourceProperties e generator w of
              Panicked w' \<Rightarrow> Panicked w' | Returned s w' \<Rightarrow> Returned None w')
         else if outputType = ''scaffold'' then
           (case scaffoldConfiguation e generator w of
              Panicked w' \<Rightarrow> Panicked w' | Returned s w' \<Rightarrow> Returned None w')
         else Returned None w)"
  using assms
  by (simp add: getContent_def resolveGenerator_def emit_def generatorOf_def specialName_def
      Let_def)





















section \<open>Existing files and the force flag\<close>

lemma main_valid:
  assumes "validFlags fl"
  shows "main e fl w =
     (case run e (flagName fl) (flagType fl = ''resource'') (flagDltaPath fl) (flagOutputType fl)
             (flagForce fl = ''y'') w of
        Panicked w' \<Rightarrow> (PanicAtRuntime, w')
      | Returned (Some err) w' \<Rightarrow> (PanicWithError err, w')
      | Returned None w' \<Rightarrow> (Ended, w'))"
  using assms by (auto simp add: main_def validFlags_def Let_def)

lemma main_init_existing:
  assumes "\<forall>operation k p. fault e operation k p = None"
    and "validFlags fl" and "flagOutputType fl = ''init''" and "\<not> specialName (flagName fl)"
    and "findResource e (flagName fl) (flagType fl = ''resource'') = Inr sch"
    and "getResourceShortCode (flagName fl) = Some code"
    and "g = generatorOf (flagName fl) (flagType fl = ''resource'') (flagDltaPath fl)
               (flagForce fl = ''y'') (Some sch) code"
    and "files w (initPath g) = Some old"
  shows "main e fl w
         = (Ended,
            if flagForce fl = ''y''
            then w\<lparr>files := (files w)(initPath g \<mapsto>
                   stringsTrimSpace e (jsonMarshalSummary e (initSummary e g sch)))\<rparr>
            else w\<lparr>out := out w @ [(''initResourceProperties '' @ DQ
                @ ''3. File exists error'' @ DQ @ '': '' @ (initPath g) @ NL)]\<rparr>)"
proof -
  have g: "isForced g = (flagForce fl = ''y'')" "resource g = Some sch"
    "resourceName g = flagName fl"
    by (simp_all add: assms(7) generatorOf_def)
  have wr: "writeInitResourceProperties e g w
        = Returned []
            (if flagForce fl = ''y''
             then w\<lparr>files := (files w)(initPath g \<mapsto>
                    stringsTrimSpace e (jsonMarshalSummary e (initSummary e g sch)))\<rparr>
             else w\<lparr>out := out w @ [(''initResourceProperties '' @ DQ
                 @ ''3. File exists error'' @ DQ @ '': '' @ (initPath g) @ NL)]\<rparr>)"
  proof (cases "flagForce fl = ''y''")
    case True
    then show ?thesis
      using writeInit_written [of e g w sch] assms(1,4) g by simp
  next
    case False
    then show ?thesis
      using writeInit_kept [of e g w old sch] assms(1,4,8) g by simp
  qed
  have "getContent e (flagName fl) (flagType fl = ''resource'') (flagDltaPath fl) ''init''
          (flagForce fl = ''y'') w
        = (case writeInitResourceProperties e g w of
             Panicked w' \<Rightarrow> Panicked w' | Returned s w' \<Rightarrow> Returned None w')"
    using getContent_found [OF assms(4,5,6), of "flagDltaPath fl" "''init''" "flagForce fl = ''y''" w]
    by (simp add: Let_def assms(7))
  then show ?thesis
    by (simp add: main_valid [OF assms(2)] run_def assms(3) wr)
qed

text \<open>
  Claim C8. On a file system without faults, a write whose target exists leaves the
  world as it was, but for the line that says the file exists, when \<open>isForced\<close> is false;
  when \<open>isForced\<close> is true the target holds the new content afterwards and nothing is
  printed. This holds for \<open>writeResource\<close> (every artefact of \<open>scaffold\<close>) and for
  \<open>writeInitResourceProperties\<close>; and \<open>isForced\<close> is the comparison of the \<open>-force\<close> flag with
  \<open>"y"\<close> that \<open>main\<close> makes, as the statement about \<open>main\<close> with output type \<open>init\<close> shows.
\<close>

theorem existing_file_kept_unless_forced:
  assumes "\<forall>operation k p. fault e operation k p = None"
  shows "(files w (writeResourcePath gen a) = Some old
          \<longrightarrow> writeResource e gen s a w
              = ([], if isForced gen
                     then w\<lparr>files := (files w)(writeResourcePath gen a \<mapsto> s)\<rparr>
                     else w\<lparr>out := out w @ [(''writeResource '' @ DQ
                         @ ''3. File exists error'' @ DQ @ ''  on path: ''
                         @ (writeResourcePath gen a) @ NL)]\<rparr>))
       \<and> (files w (initPath gen) = Some old \<and> resource gen = Some sch
            \<and> \<not> specialName (resourceName gen)
          \<longrightarrow> writeInitResourceProperties e gen w
              = Returned []
                  (if isForced gen
                   then w\<lparr>files := (files w)(initPath gen \<mapsto>
                          stringsTrimSpace e (jsonMarshalSummary e (initSummary e gen sch)))\<rparr>
                   else w\<lparr>out := out w @ [(''initResourceProperties '' @ DQ
                       @ ''3. File exists error'' @ DQ @ '': '' @ (initPath gen)
                       @ NL)]\<rparr>))
       \<and> (validFlags fl \<and> flagOutputType fl = ''init'' \<and> \<not> specialName (flagName fl)
            \<and> findResource e (flagName fl) (flagType fl = ''resource'') = Inr sch
            \<and> getResourceShortCode (flagName fl) = Some code
            \<and> g = generatorOf (flagName fl) (flagType fl = ''resource'') (flagDltaPath fl)
                      (flagForce fl = ''y'') (Some sch) code
            \<and> files w (initPath g) = Some old
          \<longrightarrow> main e fl w
              = (Ended,
                 if flagForce fl = ''y''
                 then w\<lparr>files := (files w)(initPath g \<mapsto>
                        stringsTrimSpace e (jsonMarshalSummary e (initSummary e g sch)))\<rparr>
                 else w\<lparr>out := out w @ [(''initResourceProperties '' @ DQ
                     @ ''3. File exists error'' @ DQ @ '': '' @ (initPath g) @ NL)]\<rparr>))"
proof (intro conjI impI)
  assume "files w (writeResourcePath gen a) = Some old"
  then show "writeResource e gen s a w
              = ([], if isForced gen
                     then w\<lparr>files := (files w)(writeResourcePath gen a \<mapsto> s)\<rparr>
                     else w\<lparr>out := out w @ [(''writeResource '' @ DQ
                         @ ''3. File exists error'' @ DQ @ ''  on path: ''
                         @ (writeResourcePath gen a) @ NL)]\<rparr>)"
    using writeResource_written [of e gen a w s] writeResource_kept [of e gen a w old s] assms
    by simp
next
  assume "files w (initPath gen) = Some old \<and> resource gen = Some sch
            \<and> \<not> specialName (resourceName gen)"
  then show "writeInitResourceProperties e gen w
              = Returned []
                  (if isForced gen
                   then w\<lparr>files := (files w)(initPath gen \<mapsto>
                          stringsTrimSpace e (jsonMarshalSummary e (initSummary e gen sch)))\<rparr>
                   else w\<lparr>out := out w @ [(''initResourceProperties '' @ DQ
                       @ ''3. File exists error'' @ DQ @ '': '' @ (initPath gen)
                       @ NL)]\<rparr>)"
    using writeInit_written [of e gen w sch] writeInit_kept [of e gen w old sch] assms
    by simp
next
  assume "validFlags fl \<and> flagOutputType fl = ''init'' \<and> \<not> specialName (flagName fl)
            \<and> findResource e (flagName fl) (flagType fl = ''resource'') = Inr sch
            \<and> getResourceShortCode (flagName fl) = Some code
            \<and> g = generatorOf (flagName fl) (flagType fl = ''resource'') (flagDltaPath fl)
                      (flagForce fl = ''y'') (Some sch) code
            \<and> files w (initPath g) = Some old"
  then show "main e fl w
              = (Ended,
                 if flagForce fl = ''y''
                 then w\<lparr>files := (files w)(initPath g \<mapsto>
                        stringsTrimSpace e (jsonMarshalSummary e (initSummary e g sch)))\<rparr>
                 else w\<lparr>out := out w @ [(''initResourceProperties '' @ DQ
                     @ ''3. File exists error'' @ DQ @ '': '' @ (initPath g) @ NL)]\<rparr>)"
    using main_init_existing [OF assms, of fl sch code g w old] by blast
qed

theorem existing_file_kept_unless_forced_witness:
  "(\<forall>operation k p. fault exampleEnv operation k p = None)
   \<and> writeResource exampleEnv (exampleGenerator False) ''new'' TerraformTemplate
         (exampleWorld\<lparr>files := [''/dlta/r/azurerm_example/resource/template.json'' \<mapsto> ''old'']\<rparr>)
       = ([], \<lparr>files = [''/dlta/r/azurerm_example/resource/template.json'' \<mapsto> ''old''],
               out = [(''writeResource '' @ DQ @ ''3. File exists error'' @ DQ
                   @ ''  on path: '' @ ''/dlta/r/azurerm_example/resource/template.json''
                   @ NL)]\<rparr>)
   \<and> writeResource exampleEnv (exampleGenerator True) ''new'' TerraformTemplate
         (exampleWorld\<lparr>files := [''/dlta/r/azurerm_example/resource/template.json'' \<mapsto> ''old'']\<rparr>)
       = ([], \<lparr>files = [''/dlta/r/azurerm_example/resource/template.json'' \<mapsto> ''new''],
               out = []\<rparr>)
   \<and> writeInitResourceProperties exampleEnv (exampleGenerator False) exampleWorld
       = Returned []
           (exampleWorld\<lparr>out := [(''initResourceProperties '' @ DQ
               @ ''3. File exists error'' @ DQ @ '': ''
               @ ''dlta/r/azurerm_example/resource/azurerm_example.json'' @ NL)]\<rparr>)
   \<and> main exampleEnv (exampleFlags ''n'') exampleWorld
       = (Ended,
          exampleWorld\<lparr>out := [(''initResourceProperties '' @ DQ
              @ ''3. File exists error'' @ DQ @ '': ''
              @ ''dlta/r/azurerm_example/resource/azurerm_example.json'' @ NL)]\<rparr>)
   \<and> main exampleEnv (exampleFlags ''y'') exampleWorld
       = (Ended,
          exampleWorld\<lparr>files := [''dlta/r/azurerm_example/resource/azurerm_example.json'' \<mapsto>
             stringsTrimSpace exampleEnv (jsonMarshalSummary exampleEnv
               (initSummary exampleEnv (exampleGenerator True) exampleSchema))]\<rparr>)"
proof -
  have nf: "\<forall>operation k p. fault exampleEnv operation k p = None"
    by (simp add: exampleEnv_def)
  have pt: "\<And>forced. writeResourcePath (exampleGenerator forced) TerraformTemplate
           = ''/dlta/r/azurerm_example/resource/template.json''"
    by (simp add: writeResourcePath_def exampleGenerator_def generatorOf_def resourceKindOf_def
        artefactFile_def Let_def)
  have pi: "\<And>forced. initPath (exampleGenerator forced)
           = ''dlta/r/azurerm_example/resource/azurerm_example.json''"
    by (simp add: initPath_def exampleGenerator_def generatorOf_def resourceKindOf_def Let_def)
  have g: "\<And>forced. isForced (exampleGenerator forced) = forced"
    "\<And>forced. resource (exampleGenerator forced) = Some exampleSchema"
    "\<And>forced. \<not> specialName (resourceName (exampleGenerator forced))"
    by (simp_all add: exampleGenerator_def generatorOf_def specialName_def)
  have fl: "\<And>force. force \<noteq> [] \<Longrightarrow> validFlags (exampleFlags force)"
    "\<And>force. flagOutputType (exampleFlags force) = ''init''"
    "\<And>force. \<not> specialName (flagName (exampleFlags force))"
    "\<And>force. getResourceShortCode (flagName (exampleFlags force)) = Some ''ae''"
    "\<And>force. findResource exampleEnv (flagName (exampleFlags force))
               (flagType (exampleFlags force) = ''resource'') = Inr exampleSchema"
    "\<And>force. exampleGenerator (force = ''y'')
        = generatorOf (flagName (exampleFlags force)) (flagType (exampleFlags force) = ''resource'')
            (flagDltaPath (exampleFlags force)) (flagForce (exampleFlags force) = ''y'')
            (Some exampleSchema) ''ae''"
    by (simp_all add: validFlags_def exampleFlags_def specialName_def getResourceShortCode_def
        findResource_def exampleEnv_def pickUntyped_def exampleGenerator_def)
  note t = existing_file_kept_unless_forced [OF nf]
  have w1: "writeResource exampleEnv (exampleGenerator False) ''new'' TerraformTemplate
         (exampleWorld\<lparr>files := [''/dlta/r/azurerm_example/resource/template.json'' \<mapsto> ''old'']\<rparr>)
       = ([], \<lparr>files = [''/dlta/r/azurerm_example/resource/template.json'' \<mapsto> ''old''],
               out = [(''writeResource '' @ DQ @ ''3. File exists error'' @ DQ
                   @ ''  on path: '' @ ''/dlta/r/azurerm_example/resource/template.json''
                   @ NL)]\<rparr>)"
    using t [where gen = "exampleGenerator False" and a = TerraformTemplate and old = "''old''"
        and s = "''new''"
        and w = "exampleWorld\<lparr>files := [''/dlta/r/azurerm_example/resource/template.json'' \<mapsto> ''old'']\<rparr>", THEN conjunct1]
    by (simp add: pt g exampleWorld_def)
  have w2: "writeResource exampleEnv (exampleGenerator True) ''new'' TerraformTemplate
         (exampleWorld\<lparr>files := [''/dlta/r/azurerm_example/resource/template.json'' \<mapsto> ''old'']\<rparr>)
       = ([], \<lparr>files = [''/dlta/r/azurerm_example/resource/template.json'' \<mapsto> ''new''],
               out = []\<rparr>)"
    using t [where gen = "exampleGenerator True" and a = TerraformTemplate and old = "''old''"
        and s = "''new''"
        and w = "exampleWorld\<lparr>files := [''/dlta/r/azurerm_example/resource/template.json'' \<mapsto> ''old'']\<rparr>", THEN conjunct1]
    by (simp add: pt g exampleWorld_def)
  have w3: "writeInitResourceProperties exampleEnv (exampleGenerator False) exampleWorld
       = Returned []
           (exampleWorld\<lparr>out := [(''initResourceProperties '' @ DQ
               @ ''3. File exists error'' @ DQ @ '': ''
               @ ''dlta/r/azurerm_example/resource/azurerm_example.json'' @ NL)]\<rparr>)"
    using t [where gen = "exampleGenerator False" and old = "''{}''" and sch = exampleSchema
        and w = exampleWorld, THEN conjunct2, THEN conjunct1]
    by (simp add: pi g exampleWorld_def)
  have w4: "main exampleEnv (exampleFlags ''n'') exampleWorld
       = (Ended,
          exampleWorld\<lparr>out := [(''initResourceProperties '' @ DQ
              @ ''3. File exists error'' @ DQ @ '': ''
              @ ''dlta/r/azurerm_example/resource/azurerm_example.json'' @ NL)]\<rparr>)"
    using t [where fl = "exampleFlags ''n''" and g = "exampleGenerator False" and old = "''{}''"
        and sch = exampleSchema and code = "''ae''" and w = exampleWorld,
        THEN conjunct2, THEN conjunct2]
      fl(1) [of "''n''"] fl(6) [of "''n''"]
    by (simp add: fl(2-5) pi)
       (simp add: exampleFlags_def exampleWorld_def initPath_def generatorOf_def
          resourceKindOf_def Let_def)
  have w5: "main exampleEnv (exampleFlags ''y'') exampleWorld
       = (Ended,
          exampleWorld\<lparr>files := [''dlta/r/azurerm_example/resource/azurerm_example.json'' \<mapsto>
             stringsTrimSpace exampleEnv (jsonMarshalSummary exampleEnv
               (initSummary exampleEnv (exampleGenerator True) exampleSchema))]\<rparr>)"
    using t [where fl = "exampleFlags ''y''" and g = "exampleGenerator True" and old = "''{}''"
        and sch = exampleSchema and code = "''ae''" and w = exampleWorld,
        THEN conjunct2, THEN conjunct2]
      fl(1) [of "''y''"] fl(6) [of "''y''"]
    by (simp add: fl(2-5) pi)
       (simp add: exampleFlags_def exampleWorld_def initPath_def generatorOf_def
          resourceKindOf_def Let_def)
  from nf w1 w2 w3 w4 w5 show ?thesis by blast
qed

section \<open>Failures of the file system\<close>








section \<open>The palette script\<close>

lemma splitOn_not_Nil: "splitOn c s \<noteq> []"
  by (induction s) (auto split: list.splits)

lemma splitOn_free_append:
  "c \<notin> set xs \<Longrightarrow> splitOn c (xs @ ys) = (xs
      @ hd (splitOn c ys)) # tl (splitOn c ys)"
proof (induction xs)
  case Nil
  then show ?case using splitOn_not_Nil [of c ys] by (cases "splitOn c ys") simp_all
next
  case (Cons x xs)
  then show ?case by auto
qed

lemma sqlFields_columns:
  "sqlFields paletteInsertColumns
   = [''id'', ''guid'', ''infra_id'', ''name'', ''label'', ''type'', ''active'', ''addable'',
      ''asset_type'', ''reflect_type'', ''palette_design'', ''form_fields'', ''attributes'',
      ''created_at'', ''updated_at'', ''deleted_at'', ''updated_by'', ''rank'', ''has_cost'',
      ''svg_icon) values ('' @ NL]"
  by (simp add: sqlFields_def paletteInsertColumns_def isBlank_def)

lemma sqlFields_values:
  assumes "CHR '','' \<notin> set (uuidNew e)" and "CHR '','' \<notin> set (resourceName gen)"
  shows "sqlFields (paletteInsertValues e gen)
   = [''DEFAULT'', SQ @ uuidNew e @ SQ, ''1'', SQ @ resourceName gen @ SQ,
      SQ @ resourceName gen @ SQ, SQ @ SQ, ''true'', ''true'', SQ @ resourceName gen @ SQ,
      SQ @ ''none'' @ SQ, ''null'', SQ @ ''{}'' @ SQ, ''null'', ''now()'', ''now()'', ''null'',
      ''1'', ''14'', ''false'', SQ @ SQ @ TAB @ NL]"
  using assms
  by (simp add: sqlFields_def paletteInsertValues_def isBlank_def splitOn_free_append)

text \<open>
  Claim C6. The palette script is an INSERT into \<open>core.infra_asset\<close> followed by an UPDATE
  of \<open>core.infra_asset\<close>. Read column by column (names without commas), the INSERT gives
  the resource name, quoted, to the columns \<open>name\<close>, \<open>label\<close> and \<open>asset_type\<close>, and it ends
  with \<open>);\<close>. The UPDATE sets \<open>form_fields\<close> to the JSON of the creation record (the
  resource name as \<open>create_function\<close> and the list of controls), is filtered by
  \<open>asset_type\<close> equal to the quoted resource name, and ends with a semicolon.
\<close>

theorem palette_script_shape:
  assumes "CHR '','' \<notin> set (uuidNew e)" and "CHR '','' \<notin> set (resourceName gen)"
  shows "dltaPalletteCodeBlock e gen w
         = (''insert into core.infra_asset ('' @ NL @ paletteInsertColumns
            @ paletteInsertValues e gen @ '');'' @ NL)
           @ (''UPDATE core.infra_asset SET has_cost= false,'' @ NL @ ''form_fields = '' @ SQ
              @ jsonMarshalCreator e (paletteCreation e gen w (injectAttributes e gen w))
              @ SQ @ NL @ ''where asset_type = '' @ SQ @ resourceName gen @ SQ @ '';'')
       \<and> CreateFunction (paletteCreation e gen w (injectAttributes e gen w)) = resourceName gen
       \<and> length (sqlFields paletteInsertColumns) = length (sqlFields (paletteInsertValues e gen))
       \<and> map_of (zip (sqlFields paletteInsertColumns) (sqlFields (paletteInsertValues e gen)))
             ''name'' = Some (SQ @ resourceName gen @ SQ)
       \<and> map_of (zip (sqlFields paletteInsertColumns) (sqlFields (paletteInsertValues e gen)))
             ''label'' = Some (SQ @ resourceName gen @ SQ)
       \<and> map_of (zip (sqlFields paletteInsertColumns) (sqlFields (paletteInsertValues e gen)))
             ''asset_type'' = Some (SQ @ resourceName gen @ SQ)"
proof -
  have "dltaPalletteCodeBlock e gen w
         = (''insert into core.infra_asset ('' @ NL @ paletteInsertColumns
            @ paletteInsertValues e gen @ '');'' @ NL)
           @ (''UPDATE core.infra_asset SET has_cost= false,'' @ NL @ ''form_fields = '' @ SQ
              @ jsonMarshalCreator e (paletteCreation e gen w (injectAttributes e gen w))
              @ SQ @ NL @ ''where asset_type = '' @ SQ @ resourceName gen @ SQ @ '';'')"
    by (simp add: dltaPalletteCodeBlock_def dltaPalletteCodeBlockFrom_def)
  moreover have "CreateFunction (paletteCreation e gen w (injectAttributes e gen w))
                 = resourceName gen"
    by (simp add: paletteCreation_def)
  ultimately show ?thesis
    by (simp add: sqlFields_columns sqlFields_values [OF assms])
qed

theorem palette_script_shape_witness:
  "CHR '','' \<notin> set (uuidNew exampleEnv)
   \<and> CHR '','' \<notin> set (resourceName (exampleGenerator False))
   \<and> dltaPalletteCodeBlock exampleEnv (exampleGenerator False) exampleWorld
       = (''insert into core.infra_asset ('' @ NL @ paletteInsertColumns
          @ paletteInsertValues exampleEnv (exampleGenerator False) @ '');'' @ NL)
         @ (''UPDATE core.infra_asset SET has_cost= false,'' @ NL @ ''form_fields = '' @ SQ
            @ jsonMarshalCreator exampleEnv
                (paletteCreation exampleEnv (exampleGenerator False) exampleWorld
                   (injectAttributes exampleEnv (exampleGenerator False) exampleWorld))
            @ SQ @ NL @ ''where asset_type = '' @ SQ @ ''azurerm_example'' @ SQ @ '';'')
   \<and> map_of (zip (sqlFields paletteInsertColumns)
                 (sqlFields (paletteInsertValues exampleEnv (exampleGenerator False))))
         ''asset_type'' = Some (SQ @ ''azurerm_example'' @ SQ)"
proof -
  have c: "CHR '','' \<notin> set (uuidNew exampleEnv)"
    "CHR '','' \<notin> set (resourceName (exampleGenerator False))"
    by (simp_all add: exampleEnv_def exampleGenerator_def generatorOf_def)
  have n: "resourceName (exampleGenerator False) = ''azurerm_example''"
    by (simp add: exampleGenerator_def generatorOf_def)
  from palette_script_shape [OF c, of exampleWorld] c show ?thesis
    by (simp only: n) blast
qed

section \<open>The depth of the walk\<close>

lemma setAttributes_sel [simp]:
  "Description (setAttributes a xs) = Description a"
  "IsBlock (setAttributes a xs) = IsBlock a"
  "MaxItems (setAttributes a xs) = MaxItems a"
  "MinItems (setAttributes a xs) = MinItems a"
  "Required (setAttributes a xs) = Required a"
  "Optional (setAttributes a xs) = Optional a"
  "Computed (setAttributes a xs) = Computed a"
  "ForceNew (setAttributes a xs) = ForceNew a"
  "PossibleValues (setAttributes a xs) = PossibleValues a"
  "PossibleOptions (setAttributes a xs) = PossibleOptions a"
  "DataTypeString (setAttributes a xs) = DataTypeString a"
  "Attributes (setAttributes a xs) = xs"
  "Default (setAttributes a xs) = Default a"
  "ConflictsWith (setAttributes a xs) = ConflictsWith a"
  "ResourcePath (setAttributes a xs) = ResourcePath a"
  by (simp_all add: setAttributes_def)

lemma pruneAttribute_sel [simp]:
  "Description (pruneAttribute d a) = Description a"
  "IsBlock (pruneAttribute d a) = IsBlock a"
  "Computed (pruneAttribute d a) = Computed a"
  "PossibleValues (pruneAttribute d a) = PossibleValues a"
  "PossibleOptions (pruneAttribute d a) = PossibleOptions a"
  "DataTypeString (pruneAttribute d a) = DataTypeString a"
  "Default (pruneAttribute d a) = Default a"
  "ResourcePath (pruneAttribute d a) = ResourcePath a"
  by (cases d; simp)+

lemma Attributes_pruneAttribute [simp]:
  "Attributes (pruneAttribute (Suc d) a) = pruneAttributes d (Attributes a)"
  by (simp add: pruneAttributes_def)

declare pruneAttribute.simps [simp del]

lemma map_rangeMap_prune:
  assumes "\<And>k a. f (k, pruneAttribute d a) = f (k, a)"
  shows "map f (rangeMap e site (pruneAttributes d m)) = map f (rangeMap e site m)"
proof -
  have "map f (rangeMap e site (pruneAttributes d m))
        = map (f \<circ> (\<lambda>(k, a). (k, pruneAttribute d a))) (rangeMap e site m)"
    by (simp add: pruneAttributes_def rangeMap_map)
  also have "\<dots> = map f (rangeMap e site m)"
    by (rule map_cong [OF refl]) (auto simp: assms)
  finally show ?thesis .
qed

lemma templateLevel3_prune: "templateLevel3 (k, pruneAttribute d a) = templateLevel3 (k, a)"
  by (simp add: templateLevel3_def)

lemma templateLevel2_prune:
  "templateLevel2 e gen (k, pruneAttribute (Suc d) a) = templateLevel2 e gen (k, a)"
  by (simp add: templateLevel2_def map_rangeMap_prune [where f = templateLevel3]
      templateLevel3_prune)

lemma templateLevel1_prune:
  "templateLevel1 e gen (k, pruneAttribute (Suc (Suc d)) a) = templateLevel1 e gen (k, a)"
  by (simp add: templateLevel1_def map_rangeMap_prune [where f = "templateLevel2 e gen"]
      templateLevel2_prune)

lemma lookupAttribute_prune:
  "DataTypeString (lookupAttribute (pruneAttributes d m) k) = DataTypeString (lookupAttribute m k)"
proof -
  have "map_of (pruneAttributes d m) k = map_option (pruneAttribute d) (map_of m k)"
    unfolding pruneAttributes_def by (induction m) auto
  then show ?thesis by (simp add: lookupAttribute_def split: option.splits)
qed

lemma template_prune:
  "terraformTemplateBlockFrom e gen (pruneAttributes 2 m) = terraformTemplateBlockFrom e gen m"
proof -
  have "map (templateLevel1 e gen) (rangeMap e 7 (pruneAttributes (Suc (Suc 0)) m))
        = map (templateLevel1 e gen) (rangeMap e 7 m)"
    by (rule map_rangeMap_prune) (rule templateLevel1_prune)
  then show ?thesis
    by (simp only: terraformTemplateBlockFrom_def lookupAttribute_prune numeral_2_eq_2)
qed

lemma moduleLevel3_prune: "moduleLevel3 (k, pruneAttribute d a) = moduleLevel3 (k, a)"
  by (simp add: moduleLevel3_def)

lemma moduleLevel2_prune:
  "moduleLevel2 e (k, pruneAttribute (Suc d) a) = moduleLevel2 e (k, a)"
  by (simp add: moduleLevel2_def map_rangeMap_prune [where f = moduleLevel3] moduleLevel3_prune)

lemma moduleLevel1_prune:
  "moduleLevel1 e (k, pruneAttribute (Suc (Suc d)) a) = moduleLevel1 e (k, a)"
  by (simp add: moduleLevel1_def map_rangeMap_prune [where f = "moduleLevel2 e"]
      moduleLevel2_prune)

lemma module_prune:
  "terraformModuleBlockFrom e gen (pruneAttributes 2 m) = terraformModuleBlockFrom e gen m"
proof -
  have "map (moduleLevel1 e) (rangeMap e 10 (pruneAttributes (Suc (Suc 0)) m))
        = map (moduleLevel1 e) (rangeMap e 10 m)"
    by (rule map_rangeMap_prune) (rule moduleLevel1_prune)
  then show ?thesis
    by (simp only: terraformModuleBlockFrom_def numeral_2_eq_2)
qed

lemma variableDeclaration_prune:
  "variableDeclaration n (pruneAttribute d a) c = variableDeclaration n a c"
  by (simp add: variableDeclaration_def)

lemma variableLevel3_prune:
  "variableLevel3 at (k, pruneAttribute d a) = variableLevel3 at (k, a)"
  by (simp add: variableLevel3_def variableDeclaration_prune)

lemma variableLevel3_outer: "variableLevel3 (pruneAttribute d at) = variableLevel3 at"
  by (intro ext) (simp add: variableLevel3_def split: prod.splits)

lemma variableLevel2_prune:
  "variableLevel2 e at (k, pruneAttribute (Suc d) a) = variableLevel2 e at (k, a)"
  by (simp add: variableLevel2_def map_rangeMap_prune [where f = "variableLevel3 at"]
      variableLevel3_prune variableDeclaration_prune)

lemma variableLevel2_outer: "variableLevel2 e (pruneAttribute d at) = variableLevel2 e at"
  by (intro ext) (simp add: variableLevel2_def variableLevel3_outer split: prod.splits)

lemma variableLevel1_prune:
  "variableLevel1 e (k, pruneAttribute (Suc (Suc d)) a) = variableLevel1 e (k, a)"
  by (simp add: variableLevel1_def variableLevel2_outer variableDeclaration_prune
      map_rangeMap_prune [where f = "variableLevel2 e a"] variableLevel2_prune)

lemma variable_prune:
  "terraformVariableBlockFrom e (pruneAttributes 2 m) = terraformVariableBlockFrom e m"
proof -
  have "map (variableLevel1 e) (rangeMap e 13 (pruneAttributes (Suc (Suc 0)) m))
        = map (variableLevel1 e) (rangeMap e 13 m)"
    by (rule map_rangeMap_prune) (rule variableLevel1_prune)
  then show ?thesis
    by (simp only: terraformVariableBlockFrom_def numeral_2_eq_2)
qed

lemma getPalletProp_prune:
  "getPalletProp e gen w (pruneAttribute d a) name = getPalletProp e gen w a name"
  by (simp only: getPalletProp_def basePalette_def pruneAttribute_sel)

lemma paletteLevel3_prune:
  "(\<lambda>(n2, at2). getPalletProp e gen w at2 n2) (k, pruneAttribute d a)
   = (\<lambda>(n2, at2). getPalletProp e gen w at2 n2) (k, a)"
  by (simp add: getPalletProp_prune)

lemma paletteLevel2_prune:
  "paletteLevel2 e gen w (k, pruneAttribute (Suc d) a) = paletteLevel2 e gen w (k, a)"
  by (simp add: paletteLevel2_def getPalletProp_prune
      map_rangeMap_prune [where f = "\<lambda>(n2, at2). getPalletProp e gen w at2 n2"])

lemma paletteLevel1_prune:
  "paletteLevel1 e gen w (k, pruneAttribute (Suc (Suc d)) a) = paletteLevel1 e gen w (k, a)"
  by (simp add: paletteLevel1_def getPalletProp_prune
      map_rangeMap_prune [where f = "paletteLevel2 e gen w"] paletteLevel2_prune)

lemma palette_prune:
  "dltaPalletteCodeBlockFrom e gen w (pruneAttributes 2 m) = dltaPalletteCodeBlockFrom e gen w m"
proof -
  have "map (paletteLevel1 e gen w) (rangeMap e 18 (pruneAttributes (Suc (Suc 0)) m))
        = map (paletteLevel1 e gen w) (rangeMap e 18 m)"
    by (rule map_rangeMap_prune) (rule paletteLevel1_prune)
  then show ?thesis
    by (simp only: dltaPalletteCodeBlockFrom_def paletteCreation_def numeral_2_eq_2)
qed

text \<open>
  Claim C5. The template, module, variable and palette generators give the same text
  for a map of attributes and for the map cut below the third level: what they emit
  comes from the fields of the resource, the fields of its blocks and the fields of the
  blocks inside those, and nothing nested more deeply is reflected into an artefact,
  whatever the schema the attributes come from. (\<open>getAllInputAttributes\<close> itself walks the
  schema to any depth.)
\<close>

theorem walk_is_three_levels_deep:
  "terraformTemplateBlockFrom e gen (pruneAttributes 2 attributes)
     = terraformTemplateBlockFrom e gen attributes
   \<and> terraformModuleBlockFrom e gen (pruneAttributes 2 attributes)
     = terraformModuleBlockFrom e gen attributes
   \<and> terraformVariableBlockFrom e (pruneAttributes 2 attributes)
     = terraformVariableBlockFrom e attributes
   \<and> dltaPalletteCodeBlockFrom e gen w (pruneAttributes 2 attributes)
     = dltaPalletteCodeBlockFrom e gen w attributes"
  using template_prune module_prune variable_prune palette_prune by blast

text \<open>
  On the example the third level is reached: cutting below the second level changes the
  template, while cutting below the third, where the example has a fourth, does not.
\<close>

theorem walk_is_three_levels_deep_witness:
  "terraformTemplateBlockFrom exampleEnv (exampleGenerator False)
       (pruneAttributes 2 exampleAttributes)
     = terraformTemplateBlockFrom exampleEnv (exampleGenerator False) exampleAttributes
   \<and> pruneAttributes 2 exampleAttributes \<noteq> exampleAttributes
   \<and> terraformTemplateBlockFrom exampleEnv (exampleGenerator False)
       (pruneAttributes 1 exampleAttributes)
     \<noteq> terraformTemplateBlockFrom exampleEnv (exampleGenerator False) exampleAttributes"
proof -
  have "pruneAttributes 2 exampleAttributes \<noteq> exampleAttributes"
    by code_simp
  moreover have "terraformTemplateBlockFrom exampleEnv (exampleGenerator False)
       (pruneAttributes 1 exampleAttributes)
     \<noteq> terraformTemplateBlockFrom exampleEnv (exampleGenerator False) exampleAttributes"
    by code_simp
  ultimately show ?thesis
    using walk_is_three_levels_deep [of exampleEnv "exampleGenerator False" exampleAttributes]
    by blast
qed

section \<open>The property summary as a map of resource paths\<close>

text \<open>
  \<open>getAllInputAttributes\<close> leaves under a field name what \<open>inputField\<close> says, with
  different keys; \<open>summariseAttributes\<close> is the override of the contributions of the
  entries, in the order the map is visited. The keys of the contribution of the entry
  \<open>k\<close> start with the parent path, a dot and \<open>k\<close>, and go on with a dot if they go on;
  so in a schema without dots in its field names two entries never write the same key,
  and the summary has, at a key that an entry writes, what that entry writes.
\<close>

lemma getAllInputAttributes_unfold:
  "getAllInputAttributes e input parentPath =
     foldl (\<lambda>ret k. case inputField e input parentPath k of
                        None \<Rightarrow> ret | Some a \<Rightarrow> AList.update k a ret)
       [] (sortFields e input)"
  by (subst getAllInputAttributes.simps, rule arg_cong [where f = "\<lambda>f. foldl f [] (sortFields e input)"])
     (auto simp: inputField_def inputAttribute_def fun_eq_iff split: option.splits)

lemma map_of_foldl_update:
  "map_of (foldl (\<lambda>ret k. case h k of None \<Rightarrow> ret | Some a \<Rightarrow> AList.update k a ret) acc ks) k
   = (if k \<in> set ks \<and> h k \<noteq> None then h k else map_of acc k)"
  by (induction ks arbitrary: acc) (auto simp: update_conv' split: option.splits)

lemma distinct_foldl_update:
  "distinct (map fst acc) \<Longrightarrow>
   distinct (map fst (foldl (\<lambda>ret k. case h k of None \<Rightarrow> ret | Some a \<Rightarrow> AList.update k a ret) acc ks))"
  by (induction ks arbitrary: acc) (auto simp: distinct_update split: option.splits)

lemma set_sortFields: "set (sortFields e input) = fst ` set input"
  by (simp add: sortFields_def set_rangeMap)

lemma map_of_getAllInputAttributes:
  "map_of (getAllInputAttributes e input parentPath) k = inputField e input parentPath k"
proof -
  have "inputField e input parentPath k \<noteq> None \<Longrightarrow> k \<in> fst ` set input"
    by (auto simp: inputField_def rev_image_eqI dest!: map_of_SomeD split: option.splits if_splits)
  then show ?thesis
    by (cases "inputField e input parentPath k")
       (simp_all add: getAllInputAttributes_unfold map_of_foldl_update set_sortFields)
qed

lemma distinct_getAllInputAttributes:
  "distinct (map fst (getAllInputAttributes e input parentPath))"
  by (simp add: getAllInputAttributes_unfold distinct_foldl_update)

lemma inputAttribute_sel:
  "ResourcePath (inputAttribute e P k s) = P @ ''.'' @ k"
  "Required (inputAttribute e P k s) = sRequired s"
  "IsBlock (inputAttribute e P k s) = isBlock s"
  "Attributes (inputAttribute e P k s)
   = (case sElem s of ElemResource sub \<Rightarrow> getAllInputAttributes e sub (P @ ''.''
       @ k) | _ \<Rightarrow> [])"
  by (simp_all add: inputAttribute_def isBlock_def setAttributes_def appendPossibleValues_def
        cloneSchemaToAttributes_def attribute0_def split: elem.splits)

lemma summariseAttributes_unfold:
  "summariseAttributes e a rn pr
   = foldl (\<lambda>m x. m ++ contribution e rn pr x) Map.empty (rangeMap e 1 a)"
  by (subst summariseAttributes.simps,
      rule arg_cong [where f = "\<lambda>f. foldl f Map.empty (rangeMap e 1 a)"])
     (auto simp: contribution_def Let_def fun_eq_iff map_add_def split: option.splits)

lemma foldl_override_None:
  "\<forall>x\<in>set xs. c x q = None \<Longrightarrow> foldl (\<lambda>m x. m ++ c x) m0 xs q = m0 q"
  by (induction xs arbitrary: m0) (auto simp: map_add_def)

lemma foldl_override_Some:
  "x \<in> set xs \<Longrightarrow> c x q = Some v \<Longrightarrow> \<forall>y\<in>set xs. c y q = None \<or> c y q = Some v
   \<Longrightarrow> foldl (\<lambda>m x. m ++ c x) m0 xs q = Some v"
proof (induction xs arbitrary: x rule: rev_induct)
  case (snoc y ys)
  show ?case
  proof (cases "c y q")
    case None
    with snoc.prems have "x \<in> set ys" by auto
    with snoc None show ?thesis by (auto simp: map_add_def)
  next
    case (Some u)
    with snoc.prems have "u = v" by auto
    with Some show ?thesis by (simp add: map_add_def)
  qed
qed simp

lemma foldl_override_dom:
  "foldl (\<lambda>m x. m ++ c x) m0 xs q = Some v
   \<Longrightarrow> m0 q = Some v \<or> (\<exists>x\<in>set xs. c x q = Some v)"
  by (induction xs arbitrary: v rule: rev_induct) (auto simp: map_add_def split: option.splits)

lemma dotFree_sub:
  "dotFree sch \<Longrightarrow> map_of sch k = Some s \<Longrightarrow> sElem s = ElemResource sub \<Longrightarrow> dotFree sub"
  by (subst (asm) dotFree.simps) (auto simp: list_all_iff dest!: map_of_SomeD)

lemma dotFree_key:
  "dotFree sch \<Longrightarrow> map_of sch k = Some s \<Longrightarrow> CHR ''.'' \<notin> set k"
  by (subst (asm) dotFree.simps) (auto simp: list_all_iff dest!: map_of_SomeD)

lemma sub_smaller:
  "map_of sch k = Some s \<Longrightarrow> sElem s = ElemResource sub
   \<Longrightarrow> size_list (size_prod (\<lambda>x. 0) size) sub < size_list (size_prod (\<lambda>x. 0) size) sch"
  using map_of_size_schema [of sch k s] sElem_size [of s sub] by simp

lemma takeWhile_dotted:
  "CHR ''.'' \<notin> set k \<Longrightarrow> r = [] \<or> hd r = CHR ''.''
   \<Longrightarrow> takeWhile (\<lambda>c. c \<noteq> CHR ''.'') (k @ r) = k"
  by (induction k) (cases r; auto)+

lemma dotted_unique:
  assumes "CHR ''.'' \<notin> set k" "CHR ''.'' \<notin> set k'"
    and "k @ r = k' @ r'"
    and "r = [] \<or> hd r = CHR ''.''" "r' = [] \<or> hd r' = CHR ''.''"
  shows "k = k'"
proof -
  have "takeWhile (\<lambda>c. c \<noteq> CHR ''.'') (k @ r) = k"
    using assms(1,4) by (rule takeWhile_dotted)
  moreover have "takeWhile (\<lambda>c. c \<noteq> CHR ''.'') (k' @ r') = k'"
    using assms(2,5) by (rule takeWhile_dotted)
  ultimately show ?thesis using assms(3) by simp
qed


lemma input_entry:
  assumes "(k, a) \<in> set (getAllInputAttributes e input P)"
  obtains s where "map_of input k = Some s" "sRequired s \<or> sOptional s"
    "a = inputAttribute e P k s"
proof -
  from assms have "map_of (getAllInputAttributes e input P) k = Some a"
    by (simp add: distinct_getAllInputAttributes)
  then have "inputField e input P k = Some a"
    by (simp add: map_of_getAllInputAttributes)
  then show thesis
    by (auto simp: inputField_def intro: that split: option.splits if_splits)
qed

lemma input_entry_mem:
  assumes "map_of input k = Some s" "sRequired s \<or> sOptional s"
  shows "(k, inputAttribute e P k s) \<in> set (getAllInputAttributes e input P)"
proof -
  have "map_of (getAllInputAttributes e input P) k = Some (inputAttribute e P k s)"
    using assms by (simp add: map_of_getAllInputAttributes inputField_def)
  then show ?thesis by (rule map_of_SomeD)
qed

lemma contribution_cases:
  assumes "contribution e rn pr (k, a) q = Some v"
  obtains "q = ResourcePath a" "v = summaryOf (pr \<and> Required a) a"
  | v' where "IsBlock a"
      "summariseAttributes e (Attributes a) (rn @ ''.'' @ k) (pr \<and> Required a) q = Some v'"
      "v = stripSummary v'"
  using assms
  by (auto simp: contribution_def map_add_def split: option.splits if_splits)

lemma contribution_keys:
  "(k, a) \<in> set (getAllInputAttributes e' sch P)
   \<Longrightarrow> contribution e rn pr (k, a) q = Some v
   \<Longrightarrow> \<exists>r. q = P @ ''.'' @ k @ r \<and> (r = [] \<or> hd r = CHR ''.'')"
proof (induction sch arbitrary: P rn pr k a q v
    rule: measure_induct_rule [where f = "size_list (size_prod (\<lambda>x. 0) size)"])
  case (less sch)
  from less.prems(1) obtain s where s: "map_of sch k = Some s"
    and a: "a = inputAttribute e' P k s"
    by (rule input_entry)
  from less.prems(2) show ?case
  proof (cases rule: contribution_cases)
    case 1
    then show ?thesis by (simp add: a inputAttribute_sel)
  next
    case (2 v')
    from 2(1) obtain sub where sub: "sElem s = ElemResource sub"
      by (auto simp: a inputAttribute_sel isBlock_def split: elem.splits)
    then have att: "Attributes a = getAllInputAttributes e' sub (P @ ''.'' @ k)"
      by (simp add: a inputAttribute_sel)
    from 2(2) obtain x where x: "x \<in> set (Attributes a)"
      and c: "contribution e (rn @ ''.'' @ k) (pr \<and> Required a) x q = Some v'"
      by (auto simp: summariseAttributes_unfold set_rangeMap dest!: foldl_override_dom)
    obtain k' a' where [simp]: "x = (k', a')" by (cases x)
    from x have x': "(k', a') \<in> set (getAllInputAttributes e' sub (P @ ''.'' @ k))"
      by (simp add: att)
    from c have c': "contribution e (rn @ ''.''
        @ k) (pr \<and> Required a) (k', a') q = Some v'"
      by simp
    from less.IH [OF sub_smaller [OF s sub] x' c']
    obtain r where "q = (P @ ''.'' @ k) @ ''.'' @ k' @ r"
      by auto
    then have "q = P @ ''.'' @ k @ (CHR ''.'' # k' @ r)" by simp
    then show ?thesis by (intro exI [where x = "CHR ''.'' # k' @ r"]) simp
  qed
qed

lemma summarise_keys:
  assumes "summariseAttributes e (getAllInputAttributes e' sch P) rn pr q = Some v"
  shows "\<exists>k r. q = P @ ''.'' @ k @ r"
proof -
  from assms obtain x where x: "x \<in> set (getAllInputAttributes e' sch P)"
    and c: "contribution e rn pr x q = Some v"
    by (auto simp: summariseAttributes_unfold set_rangeMap dest!: foldl_override_dom)
  obtain k a where [simp]: "x = (k, a)" by (cases x)
  from contribution_keys [of k a e' sch P e rn pr q v] x c show ?thesis by auto
qed

lemma summarise_entry:
  assumes df: "dotFree sch"
    and mem: "(k, a) \<in> set (getAllInputAttributes e' sch P)"
    and c: "contribution e rn pr (k, a) q = Some v"
  shows "summariseAttributes e (getAllInputAttributes e' sch P) rn pr q = Some v"
proof -
  let ?A = "getAllInputAttributes e' sch P"
  have "\<forall>y\<in>set (rangeMap e 1 ?A).
          contribution e rn pr y q = None \<or> contribution e rn pr y q = Some v"
  proof
    fix y assume "y \<in> set (rangeMap e 1 ?A)"
    then have y: "y \<in> set ?A" by (simp add: set_rangeMap)
    obtain k' a' where [simp]: "y = (k', a')" by (cases y)
    show "contribution e rn pr y q = None \<or> contribution e rn pr y q = Some v"
    proof (cases "contribution e rn pr y q")
      case (Some u)
      from contribution_keys [OF mem c] obtain r where
        r: "q = P @ ''.'' @ k @ r" "r = [] \<or> hd r = CHR ''.''" by auto
      from y Some contribution_keys [of k' a' e' sch P e rn pr q u] obtain r' where
        r': "q = P @ ''.'' @ k' @ r'" "r' = [] \<or> hd r' = CHR ''.''" by auto
      from mem obtain s where "map_of sch k = Some s" by (rule input_entry)
      with df have k: "CHR ''.'' \<notin> set k" by (rule dotFree_key)
      from y obtain s' where "map_of sch k' = Some s'" by (auto elim: input_entry)
      with df have k': "CHR ''.'' \<notin> set k'" by (rule dotFree_key)
      from r(1) r'(1) have "k @ r = k' @ r'" by simp
      with k k' have "k = k'" using r(2) r'(2) by (rule dotted_unique)
      with mem y have "a = a'"
        using distinct_getAllInputAttributes [of e' sch P]
        by (auto dest: eq_key_imp_eq_value)
      with \<open>k = k'\<close> c show ?thesis by simp
    qed simp
  qed
  with mem c show ?thesis
    by (subst summariseAttributes_unfold)
       (rule foldl_override_Some [where x = "(k, a)"], simp_all add: set_rangeMap)
qed


lemma contribution_own:
  assumes mem: "(k, a) \<in> set (getAllInputAttributes e' sch P)"
  shows "contribution e rn pr (k, a) (P @ ''.''
      @ k) = Some (summaryOf (pr \<and> Required a) a)"
proof -
  from mem obtain s where s: "map_of sch k = Some s" and a: "a = inputAttribute e' P k s"
    by (rule input_entry)
  have "summariseAttributes e (Attributes a) (rn @ ''.'' @ k) (pr \<and> Required a) (P
      @ ''.'' @ k)
        = None" if "IsBlock a"
  proof (cases "summariseAttributes e (Attributes a) (rn @ ''.'' @ k) (pr \<and> Required a)
                  (P @ ''.'' @ k)")
    case (Some v)
    from that obtain sub where "sElem s = ElemResource sub"
      by (auto simp: a inputAttribute_sel isBlock_def split: elem.splits)
    then have "Attributes a = getAllInputAttributes e' sub (P @ ''.'' @ k)"
      by (simp add: a inputAttribute_sel)
    with Some summarise_keys [of e e' sub "P @ ''.'' @ k" _ _ "P @ ''.'' @ k" v]
    show ?thesis by auto
  qed simp
  then show ?thesis
    by (simp add: contribution_def map_add_def a inputAttribute_sel)
qed

lemma schemasAlong_nonempty: "schemasAlong sch ns = Some ss \<Longrightarrow> ss \<noteq> []"
  by (induction sch ns arbitrary: ss rule: schemasAlong.induct)
     (auto split: option.splits elem.splits)

lemma summary_at:
  "dotFree sch \<Longrightarrow> schemasAlong sch ns = Some ss
   \<Longrightarrow> list_all (\<lambda>s. sRequired s \<or> sOptional s) ss
   \<Longrightarrow> \<exists>v. summariseAttributes e (getAllInputAttributes e' sch P) rn pr (resourcePathOf P ns)
             = Some v
           \<and> saPublished v = (pr \<and> list_all sRequired ss)
           \<and> saIsBlock v = isBlock (last ss)"
proof (induction sch ns arbitrary: ss P rn pr rule: schemasAlong.induct)
  case (1 sch)
  then show ?case by simp
next
  case (2 sch n)
  from 2(2) obtain s where s: "map_of sch n = Some s" and ss: "ss = [s]" by auto
  from 2(3) have req: "sRequired s \<or> sOptional s" by (simp add: ss)
  let ?a = "inputAttribute e' P n s"
  from s req have mem: "(n, ?a) \<in> set (getAllInputAttributes e' sch P)"
    by (rule input_entry_mem)
  from summarise_entry [OF 2(1) mem contribution_own [OF mem]]
  show ?case
    by (simp add: resourcePathOf_def ss summaryOf_def inputAttribute_sel)
next
  case (3 sch n m ms)
  from 3(3) obtain s sub ss' where s: "map_of sch n = Some s"
    and sub: "sElem s = ElemResource sub"
    and ss': "schemasAlong sub (m # ms) = Some ss'" and ss: "ss = s # ss'"
    by (auto split: option.splits elem.splits)
  from 3(4) have req: "sRequired s \<or> sOptional s"
    and reqs: "list_all (\<lambda>s. sRequired s \<or> sOptional s) ss'"
    by (simp_all add: ss)
  let ?a = "inputAttribute e' P n s"
  from s req have mem: "(n, ?a) \<in> set (getAllInputAttributes e' sch P)"
    by (rule input_entry_mem)
  from 3(1) [OF s sub dotFree_sub [OF 3(2) s sub] ss' reqs,
      of "P @ ''.'' @ n" "rn @ ''.'' @ n" "pr \<and> sRequired s"]
  obtain v' where v':
    "summariseAttributes e (getAllInputAttributes e' sub (P @ ''.'' @ n)) (rn @ ''.'' @ n)
       (pr \<and> sRequired s) (resourcePathOf (P @ ''.'' @ n) (m # ms)) = Some v'"
    "saPublished v' = ((pr \<and> sRequired s) \<and> list_all sRequired ss')"
    "saIsBlock v' = isBlock (last ss')"
    by auto
  have q: "resourcePathOf P (n # m # ms) = resourcePathOf (P @ ''.'' @ n) (m # ms)"
    by (simp add: resourcePathOf_def)
  have "contribution e rn pr (n, ?a) (resourcePathOf P (n # m # ms)) = Some (stripSummary v')"
    using v'(1) sub
    by (simp add: q contribution_def map_add_def inputAttribute_sel isBlock_def)
  from summarise_entry [OF 3(2) mem this] v'(2,3) schemasAlong_nonempty [OF ss']
  show ?case
    by (auto simp: ss stripSummary_def)
qed

text \<open>
  Claim C2, as stated, fails: \<open>getAllInputAttributes\<close> does not descend into a block
  that is neither Required nor Optional, so an attribute under such a block is left out
  of the summary, Required or Optional as it may be. In \<open>computedBlockSchema\<close> the field
  \<open>note\<close> is Optional, inside the Computed block \<open>status\<close>, and the summary has no entry
  at its resource path \<open>azurerm_example.status.note\<close>.
\<close>

theorem optional_field_of_computed_block_is_omitted:
  "schemasAlong computedBlockSchema [''status'', ''note'']
     = Some [snd (hd computedBlockSchema), field TypeString False]
   \<and> sOptional (field TypeString False)
   \<and> dotFree computedBlockSchema
   \<and> resourcePathOf ''azurerm_example'' [''status'', ''note''] = ''azurerm_example.status.note''
   \<and> initSummary exampleEnv (exampleGenerator True) computedBlockSchema
        ''azurerm_example.status.note'' = None"
  by code_simp

text \<open>
  Claim C2, amended. In a schema whose field names contain no dot, take an attribute
  that is Required or Optional and whose enclosing blocks, from the top level down to
  it, are all Required or Optional. The property summary that output type \<open>init\<close>
  serialises has an entry at the resource path of the attribute (the name of the resource
  and the field names, joined by dots); its Published flag is true if and only if the
  attribute and every enclosing block are Required, and its IsBlock flag tells whether
  the attribute is a block. This holds whatever order the maps are visited in.
\<close>

theorem published_iff_required_all_the_way:
  assumes "dotFree sch" and "schemasAlong sch ns = Some ss"
    and "list_all (\<lambda>s. sRequired s \<or> sOptional s) ss"
  shows "\<exists>v. initSummary e gen sch (resourcePathOf (resourceName gen) ns) = Some v
             \<and> saPublished v = list_all sRequired ss
             \<and> saIsBlock v = isBlock (last ss)"
  using summary_at [OF assms, of e e "resourceName gen" "resourceName gen" True]
  by (simp add: initSummary_def)

theorem published_iff_required_all_the_way_witness:
  "dotFree exampleSchema
   \<and> schemasAlong exampleSchema [''site'', ''limits'', ''cpu'']
       = Some [block True
                 [(''kind'', field TypeString True),
                  (''limits'', block False
                     [(''cpu'', field TypeInt True),
                      (''burst'', block True [(''seconds'', field TypeInt True)])])],
               block False
                 [(''cpu'', field TypeInt True),
                  (''burst'', block True [(''seconds'', field TypeInt True)])],
               field TypeInt True]
   \<and> schemasAlong exampleSchema [''site'', ''kind'']
       = Some [block True
                 [(''kind'', field TypeString True),
                  (''limits'', block False
                     [(''cpu'', field TypeInt True),
                      (''burst'', block True [(''seconds'', field TypeInt True)])])],
               field TypeString True]
   \<and> (\<exists>v. initSummary exampleEnv (exampleGenerator True) exampleSchema
              ''azurerm_example.site.limits.cpu'' = Some v
            \<and> \<not> saPublished v \<and> \<not> saIsBlock v)
   \<and> (\<exists>v. initSummary exampleEnv (exampleGenerator True) exampleSchema
              ''azurerm_example.site.kind'' = Some v
            \<and> saPublished v \<and> \<not> saIsBlock v)"
proof -
  have h1: "dotFree exampleSchema" by code_simp
  have h2: "schemasAlong exampleSchema [''site'', ''limits'', ''cpu'']
       = Some [block True
                 [(''kind'', field TypeString True),
                  (''limits'', block False
                     [(''cpu'', field TypeInt True),
                      (''burst'', block True [(''seconds'', field TypeInt True)])])],
               block False
                 [(''cpu'', field TypeInt True),
                  (''burst'', block True [(''seconds'', field TypeInt True)])],
               field TypeInt True]"
    by (simp add: exampleSchema_def block_def)
  have h3: "schemasAlong exampleSchema [''site'', ''kind'']
       = Some [block True
                 [(''kind'', field TypeString True),
                  (''limits'', block False
                     [(''cpu'', field TypeInt True),
                      (''burst'', block True [(''seconds'', field TypeInt True)])])],
               field TypeString True]"
    by (simp add: exampleSchema_def block_def)
  have n: "resourceName (exampleGenerator True) = ''azurerm_example''"
    by (simp add: exampleGenerator_def generatorOf_def)
  from published_iff_required_all_the_way [OF h1 h2, of exampleEnv "exampleGenerator True"]
  have "\<exists>v. initSummary exampleEnv (exampleGenerator True) exampleSchema
              ''azurerm_example.site.limits.cpu'' = Some v
            \<and> \<not> saPublished v \<and> \<not> saIsBlock v"
    by (simp add: n resourcePathOf_def block_def field_def isBlock_def)
  moreover
  from published_iff_required_all_the_way [OF h1 h3, of exampleEnv "exampleGenerator True"]
  have "\<exists>v. initSummary exampleEnv (exampleGenerator True) exampleSchema
              ''azurerm_example.site.kind'' = Some v
            \<and> saPublished v \<and> \<not> saIsBlock v"
    by (simp add: n resourcePathOf_def block_def field_def isBlock_def)
  ultimately show ?thesis using h1 h2 h3 by (intro conjI)
qed

section \<open>What a run depends on\<close>

text \<open>
  The attributes \<open>getAllInputAttributes\<close> returns do not depend on the order the schema is
  visited in, because the field names are sorted; in a schema without dots in its field
  names the summary does not depend on the order the attributes are visited in either,
  because no two entries write the same key. The file-system operations read the
  environment for their faults only.
\<close>

lemma sortFields_env: "sortFields e1 input = sortFields e2 input"
  unfolding sortFields_def rangeMap_def
  by (rule properties_for_sort) (simp_all add: mset_shuffle)

lemma getAllInputAttributes_env:
  "getAllInputAttributes e1 sch P = getAllInputAttributes e2 sch P"
proof (induction sch arbitrary: P
    rule: measure_induct_rule [where f = "size_list (size_prod (\<lambda>x. 0) size)"])
  case (less sch)
  have "inputField e1 sch P k = inputField e2 sch P k" for k
  proof (cases "map_of sch k")
    case (Some s)
    show ?thesis
    proof (cases "sElem s")
      case (ElemResource sub)
      from less.IH [OF sub_smaller [OF Some ElemResource]] show ?thesis
        by (simp add: inputField_def inputAttribute_def Some ElemResource)
    qed (simp_all add: inputField_def inputAttribute_def Some)
  qed (simp add: inputField_def)
  then show ?case
    by (simp add: getAllInputAttributes_unfold sortFields_env [of e1 sch e2])
qed

lemma summarise_env:
  "dotFree sch
   \<Longrightarrow> summariseAttributes e1 (getAllInputAttributes e' sch P) rn pr
       = summariseAttributes e2 (getAllInputAttributes e' sch P) rn pr"
proof (induction sch arbitrary: P rn pr
    rule: measure_induct_rule [where f = "size_list (size_prod (\<lambda>x. 0) size)"])
  case (less sch)
  let ?A = "getAllInputAttributes e' sch P"
  have c: "contribution e1 rn pr x = contribution e2 rn pr x" if "x \<in> set ?A" for x
  proof -
    obtain k a where x: "x = (k, a)" by (cases x)
    from that obtain s where s: "map_of sch k = Some s" and a: "a = inputAttribute e' P k s"
      by (auto simp: x elim: input_entry)
    show ?thesis
    proof (cases "sElem s")
      case (ElemResource sub)
      then have att: "Attributes a = getAllInputAttributes e' sub (P @ ''.'' @ k)"
        by (simp add: a inputAttribute_sel)
      from less.IH [OF sub_smaller [OF s ElemResource] dotFree_sub [OF less.prems s ElemResource]]
      show ?thesis by (simp add: x contribution_def att)
    qed (simp_all add: x contribution_def a inputAttribute_sel isBlock_def)
  qed
  show ?case
  proof (rule ext)
    fix q
    show "summariseAttributes e1 ?A rn pr q = summariseAttributes e2 ?A rn pr q"
    proof (cases "\<exists>x\<in>set ?A. contribution e1 rn pr x q \<noteq> None")
      case True
      then obtain k a v where mem: "(k, a) \<in> set ?A"
        and c1: "contribution e1 rn pr (k, a) q = Some v" by auto
      from c [OF mem] c1 have c2: "contribution e2 rn pr (k, a) q = Some v" by simp
      from summarise_entry [OF less.prems mem c1] summarise_entry [OF less.prems mem c2]
      show ?thesis by simp
    next
      case False
      then have n1: "\<forall>x\<in>set (rangeMap e1 1 ?A). contribution e1 rn pr x q = None"
        by (simp add: set_rangeMap)
      with c have n2: "\<forall>x\<in>set (rangeMap e2 1 ?A). contribution e2 rn pr x q = None"
        by (simp add: set_rangeMap)
      show ?thesis
        by (simp only: summariseAttributes_unfold
            foldl_override_None [where c = "contribution e1 rn pr" and q = q, OF n1]
            foldl_override_None [where c = "contribution e2 rn pr" and q = q, OF n2])
    qed
  qed
qed

lemma initSummary_env:
  "dotFree sch \<Longrightarrow> initSummary e1 gen sch = initSummary e2 gen sch"
  using summarise_env [of sch e1 e1 "resourceName gen" "resourceName gen" True e2]
    getAllInputAttributes_env [of e1 sch "resourceName gen" e2]
  by (simp add: initSummary_def)

lemma fs_env:
  "osStat (e\<lparr>mapOrder := order, uuidNew := u\<rparr>) = osStat e"
  "osRemove (e\<lparr>mapOrder := order, uuidNew := u\<rparr>) = osRemove e"
  "osMkdirAll (e\<lparr>mapOrder := order, uuidNew := u\<rparr>) = osMkdirAll e"
  "osCreate (e\<lparr>mapOrder := order, uuidNew := u\<rparr>) = osCreate e"
  "fileWriteString (e\<lparr>mapOrder := order, uuidNew := u\<rparr>) = fileWriteString e"
  by (simp_all add: fun_eq_iff osStat_def osRemove_def osMkdirAll_def osCreate_def
      fileWriteString_def)

lemma write_env:
  "clearPrevious (e\<lparr>mapOrder := order, uuidNew := u\<rparr>) = clearPrevious e"
  "createAndWrite (e\<lparr>mapOrder := order, uuidNew := u\<rparr>) = createAndWrite e"
  by (simp_all only: fun_eq_iff clearPrevious_def createAndWrite_def fs_env) simp_all

lemma writeInit_env:
  assumes "\<forall>sch. resource gen = Some sch \<longrightarrow> dotFree sch"
  shows "writeInitResourceProperties (e\<lparr>mapOrder := order, uuidNew := u\<rparr>) gen w
         = writeInitResourceProperties e gen w"
proof (cases "resource gen")
  case None
  then show ?thesis by (simp add: writeInitResourceProperties_def)
next
  case (Some sch)
  with assms have "dotFree sch" by simp
  from initSummary_env [OF this, of "e\<lparr>mapOrder := order, uuidNew := u\<rparr>" gen e]
  show ?thesis
    by (simp add: writeInitResourceProperties_def Some fs_env write_env Let_def)
qed

lemma findResource_env:
  "findResource (e\<lparr>mapOrder := order, uuidNew := u\<rparr>) = findResource e"
  by (simp add: fun_eq_iff findResource_def cong: sum.case_cong)

text \<open>
  Claim C10, as stated, fails. The palette script has the UUID that \<open>uuid.New()\<close> draws:
  two runs of \<open>scaffold\<close> on the same flags, schema and files that draw different UUIDs
  leave different scripts in \<open>pallette.sql\<close>. The blocks are built by ranging over Go
  maps: two runs that visit the maps in different orders leave different files, here in
  \<open>output.tf\<close>. All three runs end without error.
\<close>

theorem scaffold_depends_on_uuid_and_map_order:
  "fst (main exampleEnv scaffoldFlags exampleWorld) = Ended
   \<and> fst (main (exampleEnv\<lparr>uuidNew := ''0000-02''\<rparr>) scaffoldFlags exampleWorld) = Ended
   \<and> fst (main (exampleEnv\<lparr>mapOrder := (\<lambda>site. [1])\<rparr>) scaffoldFlags exampleWorld) = Ended
   \<and> files (snd (main (exampleEnv\<lparr>uuidNew := ''0000-02''\<rparr>) scaffoldFlags exampleWorld))
        ''/dlta/r/azurerm_example/resource/pallette.sql''
      \<noteq> files (snd (main exampleEnv scaffoldFlags exampleWorld))
          ''/dlta/r/azurerm_example/resource/pallette.sql''
   \<and> files (snd (main (exampleEnv\<lparr>mapOrder := (\<lambda>site. [1])\<rparr>) scaffoldFlags exampleWorld))
        ''/dlta/r/azurerm_example/module/output.tf''
      \<noteq> files (snd (main exampleEnv scaffoldFlags exampleWorld))
          ''/dlta/r/azurerm_example/module/output.tf''"
  by code_simp

text \<open>
  Claim C10, amended. With output type \<open>init\<close>, when the field names of the schema that
  the name resolves to contain no dot, a run is a function of the flags, the registered
  schemas, the files and the faults of the file system: whatever order the maps are
  visited in and whatever UUID would be drawn, it ends the same way and leaves the same
  files and the same output.
\<close>

theorem init_is_deterministic:
  assumes "flagOutputType fl = ''init''"
    and "\<forall>sch. findResource e (flagName fl) (flagType fl = ''resource'') = Inr sch \<longrightarrow> dotFree sch"
  shows "main (e\<lparr>mapOrder := order, uuidNew := u\<rparr>) fl w = main e fl w"
proof -
  let ?e = "e\<lparr>mapOrder := order, uuidNew := u\<rparr>"
  let ?g = "\<lparr>resource = None, resourceName = flagName fl,
             isDataSource = \<not> (flagType fl = ''resource''), dltaPath = flagDltaPath fl,
             isResource = (flagType fl = ''resource''), isForced = (flagForce fl = ''y''),
             ShortCode = [], NamingConvention = []\<rparr>"
  have r: "resolveGenerator ?e ?g = resolveGenerator e ?g"
    by (simp add: resolveGenerator_def findResource_env)
  have "emit ?e g ''init'' w = emit e g ''init'' w" if "resolveGenerator e ?g = Inr g" for g
  proof -
    from that assms(2) have "\<forall>sch. resource g = Some sch \<longrightarrow> dotFree sch"
      by (auto simp: resolveGenerator_def split: if_splits sum.splits)
    then have "writeInitResourceProperties ?e (g\<lparr>ShortCode := c, NamingConvention := n\<rparr>) w
          = writeInitResourceProperties e (g\<lparr>ShortCode := c, NamingConvention := n\<rparr>) w" for c n
      by (intro writeInit_env) simp
    then show ?thesis
      by (simp add: emit_def Let_def split: option.splits)
  qed
  then have gc: "getContent ?e (flagName fl) (flagType fl = ''resource'') (flagDltaPath fl) ''init''
               (flagForce fl = ''y'') w
             = getContent e (flagName fl) (flagType fl = ''resource'') (flagDltaPath fl) ''init''
               (flagForce fl = ''y'') w"
    by (simp add: getContent_def r split: sum.splits)
  show ?thesis
    by (simp only: main_def run_def Let_def assms(1) gc)
qed

theorem init_is_deterministic_witness:
  "flagOutputType (exampleFlags ''y'') = ''init''
   \<and> findResource exampleEnv ''azurerm_example'' True = Inr exampleSchema
   \<and> dotFree exampleSchema
   \<and> main (exampleEnv\<lparr>mapOrder := (\<lambda>site. [1]), uuidNew := ''0000-02''\<rparr>) (exampleFlags ''y'')
         exampleWorld
       = main exampleEnv (exampleFlags ''y'') exampleWorld"
proof -
  have h1: "flagOutputType (exampleFlags ''y'') = ''init''"
    by (simp add: exampleFlags_def)
  have h2: "findResource exampleEnv ''azurerm_example'' True = Inr exampleSchema"
    by (simp add: findResource_def exampleEnv_def pickUntyped_def)
  have h3: "dotFree exampleSchema" by code_simp
  have h4: "\<forall>sch. findResource exampleEnv (flagName (exampleFlags ''y''))
                  (flagType (exampleFlags ''y'') = ''resource'') = Inr sch
                \<longrightarrow> dotFree sch"
    using h2 h3 by (simp add: exampleFlags_def)
  from init_is_deterministic [OF h1 h4, where order = "\<lambda>site. [1]" and u = "''0000-02''"
      and w = exampleWorld] h1 h2 h3
  show ?thesis by (intro conjI)
qed

section \<open>The template line of the resource group\<close>

text \<open>
  What a loop of map updates leaves under a key that the loop meets once; and so the
  way of an attribute that is not a block from the input attributes, through the
  published ones, to the attributes the blocks are generated from.
\<close>

lemma concat_map_split:
  "x \<in> set xs \<Longrightarrow> \<exists>pre post. concat (map f xs) = pre @ f x @ post"
proof -
  assume "x \<in> set xs"
  then obtain ys zs where "xs = ys @ x # zs" by (auto simp: in_set_conv_decomp)
  then have "concat (map f xs) = concat (map f ys) @ f x @ concat (map f zs)" by simp
  then show ?thesis by blast
qed

lemma foldl_pairs_other:
  assumes step: "\<And>r k' a'. k' \<noteq> k \<Longrightarrow> map_of (f r (k', a')) k = map_of r k"
    and "k \<notin> fst ` set xs"
  shows "map_of (foldl f acc xs) k = map_of acc k"
  using assms(2)
proof (induction xs arbitrary: acc)
  case (Cons x xs)
  obtain k' a' where x: "x = (k', a')" by (cases x)
  with Cons.prems have "k' \<noteq> k" "k \<notin> fst ` set xs" by auto
  with Cons.IH [of "f acc (k', a')"] step [of k' acc a'] show ?case by (simp add: x)
qed simp

lemma foldl_pairs_lookup:
  assumes other: "\<And>r k' a'. k' \<noteq> k \<Longrightarrow> map_of (f r (k', a')) k = map_of r k"
    and same: "\<And>r. map_of (f r (k, a)) k = Some b"
    and "distinct (map fst xs)" and "(k, a) \<in> set xs"
  shows "map_of (foldl f acc xs) k = Some b"
  using assms(3,4)
proof (induction xs arbitrary: acc)
  case (Cons x xs)
  obtain k' a' where x: "x = (k', a')" by (cases x)
  show ?case
  proof (cases "k' = k")
    case True
    with Cons.prems x have n: "k \<notin> fst ` set xs" and "a' = a" by (auto simp: rev_image_eqI)
    with True x foldl_pairs_other [of k f xs "f acc (k, a)", OF other n] same [of acc]
    show ?thesis by simp
  next
    case False
    with Cons.prems x have "(k, a) \<in> set xs" "distinct (map fst xs)" by auto
    from Cons.IH [OF this(2,1)] show ?thesis by (simp add: x)
  qed
qed simp

lemma distinct_foldl_pairs:
  assumes "\<And>r x. distinct (map fst r) \<Longrightarrow> distinct (map fst (f r x))"
    and "distinct (map fst acc)"
  shows "distinct (map fst (foldl f acc xs))"
  using assms(2) by (induction xs arbitrary: acc) (simp_all add: assms(1))

lemma distinct_keys_rangeMap:
  "distinct (map fst (rangeMap e site xs)) = distinct (map fst xs)"
proof -
  have "mset (map fst (rangeMap e site xs)) = mset (map fst xs)"
    by (simp add: rangeMap_def mset_shuffle)
  then show ?thesis by (rule mset_eq_imp_distinct_iff)
qed

lemma distinct_getAllPublishedAttributes:
  "distinct (map fst (getAllPublishedAttributes e allAttr sa))"
  by (subst getAllPublishedAttributes.simps)
     (rule distinct_foldl_pairs, auto simp: distinct_update)

lemma published_entry:
  assumes "distinct (map fst allAttr)" and "(k, a) \<in> set allAttr"
    and "saPublished (lookupSummary sa (ResourcePath a))" and "\<not> IsBlock a"
  shows "(k, a) \<in> set (getAllPublishedAttributes e allAttr sa)"
proof -
  have "map_of (getAllPublishedAttributes e allAttr sa) k = Some a"
    by (subst getAllPublishedAttributes.simps, rule foldl_pairs_lookup [where a = a])
       (use assms in \<open>auto simp: update_conv' distinct_keys_rangeMap set_rangeMap\<close>)
  then show ?thesis by (rule map_of_SomeD)
qed

lemma injected_entry:
  assumes "(k, a) \<in> set (getPublishedAttributes e gen w)"
  shows "(k, a) \<in> set (injectAttributes e gen w)"
proof -
  have d: "distinct (map fst (getPublishedAttributes e gen w))"
    by (simp add: getPublishedAttributes_def Let_def distinct_getAllPublishedAttributes
        split: option.splits)
  have "map_of (injectAttributes e gen w) k = Some a"
    unfolding injectAttributes_def Let_def
    by (rule foldl_pairs_lookup [where a = a])
       (use assms d in \<open>auto simp: update_conv' distinct_keys_rangeMap set_rangeMap\<close>)
  then show ?thesis by (rule map_of_SomeD)
qed

lemma Computed_inputAttribute: "Computed (inputAttribute e P k s) = sComputed s"
  by (simp add: inputAttribute_def setAttributes_def appendPossibleValues_def
      cloneSchemaToAttributes_def split: elem.splits)

text \<open>
  Claim C7, as stated, fails. The hard-coded branch is in the loop over the attributes of
  the resource itself, and the template is generated from the attributes that the
  summary on disk marks as published. A required \<open>resource_group_name\<close> inside the required
  block \<open>site\<close> is written in the generic form \<open>resource_group_name = "${resource_group_name}"\<close>;
  a required one at the top level is not written at all when there is no summary on
  disk; and an optional one at the top level is not written when the summary is the one
  \<open>init\<close> computes, which publishes required attributes only.
\<close>

theorem resource_group_name_generic_or_missing:
  "schemasAlong nestedGroupSchema [''site'', ''resource_group_name'']
     = Some [block True [(''resource_group_name'', field TypeString True)], field TypeString True]
   \<and> \<not> sComputed (field TypeString True) \<and> \<not> isBlock (field TypeString True)
   \<and> terraformTemplateBlock exampleEnv (generatorOver nestedGroupSchema) exampleWorld
       = exampleTemplateHead @ (TAB @ ''resource_group_name'' @ TAB @ TAB @ ''= '' @ DQ
           @ ''${'' @ ''resource_group_name'' @ ''}'' @ DQ @ NL) @ (''}'' @ NL)
   \<and> map_of exampleSchema ''resource_group_name'' = Some (field TypeString True)
   \<and> terraformTemplateBlock exampleEnv (generatorOver exampleSchema) emptyWorld
       = exampleTemplateHead @ (''}'' @ NL)
   \<and> map_of optionalGroupSchema ''resource_group_name'' = Some (field TypeString False)
   \<and> \<not> sComputed (field TypeString False) \<and> \<not> isBlock (field TypeString False)
   \<and> terraformTemplateBlock (initialisedEnv optionalGroupSchema)
         (generatorOver optionalGroupSchema) exampleWorld
       = exampleTemplateHead @ (''}'' @ NL)"
  by code_simp

text \<open>
  Claim C7, amended. For a resource that is neither \<open>terraform_azurerm\<close> nor
  \<open>devops_pipeline\<close>, take a field of the schema of the resource itself (not of a block)
  named \<open>resource_group_name\<close> that is Required or Optional, not Computed and not a block,
  and that the summary read from disk marks as published. Its attribute is among those
  the template is generated from, and its round of the template loop appends the
  hard-coded line: \<open>resource_group_name = module.${ResourceGroup}.name\<close> for a resource,
  \<open>resource_group_name = "${DataResourceGroup}"\<close> for a data source (with the tabs of the
  source), which is not the generic line \<open><name> = "${<name>}"\<close>; and the template
  contains what that round appends.
\<close>

theorem resource_group_name_line:
  assumes "resourceName gen \<noteq> ''terraform_azurerm''"
    and "resourceName gen \<noteq> ''devops_pipeline''"
    and "resource gen = Some sch"
    and "map_of sch ''resource_group_name'' = Some s"
    and "sRequired s \<or> sOptional s" and "\<not> sComputed s" and "\<not> isBlock s"
    and "saPublished (lookupSummary (readResourceProperties e gen w)
           (resourceName gen @ ''.resource_group_name''))"
    and "at = inputAttribute e (resourceName gen) ''resource_group_name'' s"
  shows "(''resource_group_name'', at) \<in> set (injectAttributes e gen w)
         \<and> templateLevel1 e gen (''resource_group_name'', at)
           = (if isDataSource gen
              then TAB @ ''resource_group_name'' @ TAB @ TAB @ ''= '' @ DQ
                  @ ''${DataResourceGroup}'' @ DQ @ NL
              else TAB @ ''resource_group_name'' @ TAB @ TAB
                  @ ''= module.${ResourceGroup}.name'' @ NL)
         \<and> templateLevel1 e gen (''resource_group_name'', at)
           \<noteq> TAB @ ''resource_group_name'' @ TAB @ TAB @ ''= '' @ DQ
               @ ''${resource_group_name}'' @ DQ @ NL
         \<and> (\<exists>pre post. terraformTemplateBlock e gen w
               = pre @ templateLevel1 e gen (''resource_group_name'', at) @ post)"
proof -
  have at: "ResourcePath at = resourceName gen @ ''.resource_group_name''"
    "\<not> IsBlock at" "\<not> Computed at"
    using assms(6,7) by (simp_all add: assms(9) inputAttribute_sel Computed_inputAttribute)
  have "(''resource_group_name'', at) \<in> set (getAllInputAttributes e sch (resourceName gen))"
    unfolding assms(9) using assms(4,5) by (rule input_entry_mem)
  then have "(''resource_group_name'', at)
      \<in> set (getAllPublishedAttributes e (getAllInputAttributes e sch (resourceName gen))
               (readResourceProperties e gen w))"
    using assms(8) at(2)
    by (intro published_entry distinct_getAllInputAttributes) (simp_all add: at(1))
  then have "(''resource_group_name'', at) \<in> set (getPublishedAttributes e gen w)"
    by (simp add: getPublishedAttributes_def assms(3) Let_def)
  then have mem: "(''resource_group_name'', at) \<in> set (injectAttributes e gen w)"
    by (rule injected_entry)
  have line: "templateLevel1 e gen (''resource_group_name'', at)
           = (if isDataSource gen
              then TAB @ ''resource_group_name'' @ TAB @ TAB @ ''= '' @ DQ
                  @ ''${DataResourceGroup}'' @ DQ @ NL
              else TAB @ ''resource_group_name'' @ TAB @ TAB
                  @ ''= module.${ResourceGroup}.name'' @ NL)"
    using at(2,3) by (simp add: templateLevel1_def)
  have "(''resource_group_name'', at) \<in> set (rangeMap e 7 (injectAttributes e gen w))"
    using mem by (simp add: set_rangeMap)
  from concat_map_split [OF this, of "templateLevel1 e gen"]
  obtain pre post where
    "concat (map (templateLevel1 e gen) (rangeMap e 7 (injectAttributes e gen w)))
     = pre @ templateLevel1 e gen (''resource_group_name'', at) @ post"
    by blast
  then have "\<exists>pre post. terraformTemplateBlock e gen w
               = pre @ templateLevel1 e gen (''resource_group_name'', at) @ post"
    using assms(1,2)
    by (simp only: terraformTemplateBlock_def terraformTemplateBlockFrom_def simp_thms if_True
        append_assoc) (metis append_assoc)
  with line mem show ?thesis by (simp only: line) (simp split: if_splits)
qed

theorem resource_group_name_line_witness:
  "map_of exampleSchema ''resource_group_name'' = Some (field TypeString True)
   \<and> saPublished (lookupSummary
         (readResourceProperties exampleEnv (exampleGenerator False) exampleWorld)
         ''azurerm_example.resource_group_name'')
   \<and> (\<exists>pre post. terraformTemplateBlock exampleEnv (exampleGenerator False) exampleWorld
         = pre @ (TAB @ ''resource_group_name'' @ TAB @ TAB
             @ ''= module.${ResourceGroup}.name'' @ NL) @ post)
   \<and> (\<exists>pre post. terraformTemplateBlock exampleEnv ((exampleGenerator False)\<lparr>isDataSource := True\<rparr>)
           exampleWorld
         = pre @ (TAB @ ''resource_group_name'' @ TAB @ TAB @ ''= '' @ DQ
             @ ''${DataResourceGroup}'' @ DQ @ NL) @ post)"
proof -
  let ?g = "exampleGenerator False"
  let ?d = "(exampleGenerator False)\<lparr>isDataSource := True\<rparr>"
  let ?s = "field TypeString True"
  have n: "resourceName ?g \<noteq> ''terraform_azurerm''" "resourceName ?g \<noteq> ''devops_pipeline''"
    "resourceName ?d \<noteq> ''terraform_azurerm''" "resourceName ?d \<noteq> ''devops_pipeline''"
    "\<not> isDataSource ?g" "isDataSource ?d"
    "resource ?g = Some exampleSchema" "resource ?d = Some exampleSchema"
    "resourceName ?g = ''azurerm_example''" "resourceName ?d = ''azurerm_example''"
    by (simp_all add: exampleGenerator_def generatorOf_def)
  have s: "map_of exampleSchema ''resource_group_name'' = Some ?s"
    by (simp add: exampleSchema_def)
  have f: "sRequired ?s \<or> sOptional ?s" "\<not> sComputed ?s" "\<not> isBlock ?s"
    by (simp_all add: field_def isBlock_def)
  have p1: "saPublished (lookupSummary (readResourceProperties exampleEnv ?g exampleWorld)
         ''azurerm_example.resource_group_name'')"
    by code_simp
  have p2: "saPublished (lookupSummary (readResourceProperties exampleEnv ?d exampleWorld)
         ''azurerm_example.resource_group_name'')"
    by code_simp
  have q1: "saPublished (lookupSummary (readResourceProperties exampleEnv ?g exampleWorld)
         (resourceName ?g @ ''.resource_group_name''))"
    using p1 by (simp only: n(9)) simp
  have q2: "saPublished (lookupSummary (readResourceProperties exampleEnv ?d exampleWorld)
         (resourceName ?d @ ''.resource_group_name''))"
    using p2 by (simp only: n(10)) simp
  from resource_group_name_line [OF n(1,2,7) s f q1 refl]
  obtain pre post where
    l1: "templateLevel1 exampleEnv ?g
           (''resource_group_name'', inputAttribute exampleEnv (resourceName ?g)
              ''resource_group_name'' ?s)
           = (if isDataSource ?g
              then TAB @ ''resource_group_name'' @ TAB @ TAB @ ''= '' @ DQ
                  @ ''${DataResourceGroup}'' @ DQ @ NL
              else TAB @ ''resource_group_name'' @ TAB @ TAB
                  @ ''= module.${ResourceGroup}.name'' @ NL)"
    and t1: "terraformTemplateBlock exampleEnv ?g exampleWorld
         = pre @ templateLevel1 exampleEnv ?g
                  (''resource_group_name'', inputAttribute exampleEnv (resourceName ?g)
                     ''resource_group_name'' ?s) @ post"
    by blast
  have "terraformTemplateBlock exampleEnv ?g exampleWorld
         = pre @ (TAB @ ''resource_group_name'' @ TAB @ TAB
             @ ''= module.${ResourceGroup}.name'' @ NL) @ post"
    using n(5) by (simp only: t1 l1 if_False)
  then have r1: "\<exists>pre post. terraformTemplateBlock exampleEnv ?g exampleWorld
         = pre @ (TAB @ ''resource_group_name'' @ TAB @ TAB
             @ ''= module.${ResourceGroup}.name'' @ NL) @ post"
    by blast
  from resource_group_name_line [OF n(3,4,8) s f q2 refl]
  obtain pre' post' where
    l2: "templateLevel1 exampleEnv ?d
           (''resource_group_name'', inputAttribute exampleEnv (resourceName ?d)
              ''resource_group_name'' ?s)
           = (if isDataSource ?d
              then TAB @ ''resource_group_name'' @ TAB @ TAB @ ''= '' @ DQ
                  @ ''${DataResourceGroup}'' @ DQ @ NL
              else TAB @ ''resource_group_name'' @ TAB @ TAB
                  @ ''= module.${ResourceGroup}.name'' @ NL)"
    and t2: "terraformTemplateBlock exampleEnv ?d exampleWorld
         = pre' @ templateLevel1 exampleEnv ?d
                  (''resource_group_name'', inputAttribute exampleEnv (resourceName ?d)
                     ''resource_group_name'' ?s) @ post'"
    by blast
  have "terraformTemplateBlock exampleEnv ?d exampleWorld
         = pre' @ (TAB @ ''resource_group_name'' @ TAB @ TAB @ ''= '' @ DQ
             @ ''${DataResourceGroup}'' @ DQ @ NL) @ post'"
    using n(6) by (simp only: t2 l2 if_True)
  then have r2: "\<exists>pre post. terraformTemplateBlock exampleEnv ?d exampleWorld
         = pre @ (TAB @ ''resource_group_name'' @ TAB @ TAB @ ''= '' @ DQ
             @ ''${DataResourceGroup}'' @ DQ @ NL) @ post"
    by blast
  from s p1 r1 r2 show ?thesis by blast
qed


end
